theory Spec2Isabelle
  imports Complex_Main
begin

section \<open>Engine types used by the three generators\<close>

text \<open>
  The generators are Unreal Engine actors. Their single-precision floats are modelled by
  \<^typ>\<open>real\<close> (no rounding), their \<open>int32\<close> by \<^typ>\<open>int\<close> (no claim below reaches an
  overflow), \<open>FString\<close> by \<^typ>\<open>string\<close> and \<open>TArray\<close> by lists in insertion order.
\<close>

record FVector =
  vX :: real
  vY :: real
  vZ :: real

definition FVector_add :: "FVector \<Rightarrow> FVector \<Rightarrow> FVector" where
  "FVector_add a b = \<lparr>vX = vX a + vX b, vY = vY a + vY b, vZ = vZ a + vZ b\<rparr>"

definition Dist :: "FVector \<Rightarrow> FVector \<Rightarrow> real" where
  "Dist a b = sqrt ((vX a - vX b)\<^sup>2 + (vY a - vY b)\<^sup>2 + (vZ a - vZ b)\<^sup>2)"

definition DegreesToRadians :: "real \<Rightarrow> real" where
  "DegreesToRadians d = d * (pi / 180)"

definition Clamp :: "real \<Rightarrow> real \<Rightarrow> real \<Rightarrow> real" where
  "Clamp x lo hi = (if x < lo then lo else if x < hi then x else hi)"

definition TruncToInt :: "real \<Rightarrow> int" where
  "TruncToInt x = (if 0 \<le> x then \<lfloor>x\<rfloor> else \<lceil>x\<rceil>)"

subsection \<open>Decimal printing (\<open>FString::Printf\<close> with \<open>%d\<close>)\<close>

fun digits :: "nat \<Rightarrow> string" where
  "digits n = (if n < 10 then [''0123456789'' ! n]
               else digits (n div 10) @ [''0123456789'' ! (n mod 10)])"

declare digits.simps [simp del]

definition Printf_d :: "string \<Rightarrow> int \<Rightarrow> string" where
  "Printf_d prefix n = prefix @ (if n < 0 then CHR ''-'' # digits (nat (- n)) else digits (nat n))"

subsection \<open>Random sources\<close>

text \<open>
  Neither \<open>FMath::Rand/FRand/RandRange\<close> (the process-wide C library generator) nor
  \<open>FRandomStream\<close> belongs to the repository. A random source is taken as the sequence of raw
  values it is going to produce, consumed front to back; which sequence a seed stands for is a
  parameter of the model (\<open>engine\<close>). The derived operations follow the engine's contract:
  \<open>FRand\<close> a fraction of the unit interval; \<open>RandHelper A\<close> the integer
  \<open>min (trunc (fraction * A)) (A - 1)\<close> for a positive \<open>A\<close>, and \<open>0\<close> with no draw made
  otherwise; \<open>RandRange lo hi\<close> the integer \<open>lo + RandHelper (hi - lo + 1)\<close>;
  \<open>FRandRange lo hi\<close> the value \<open>lo + (hi - lo) * fraction\<close>.
\<close>

type_synonym draws = "nat \<Rightarrow> nat"

definition advance :: "draws \<Rightarrow> draws" where
  "advance s = (\<lambda>k. s (Suc k))"

text \<open>The process-wide generator: \<open>rand()\<close> yields a value in \<open>0..RAND_MAX\<close>.\<close>

definition RAND_MAX :: nat where
  "RAND_MAX = 32767"

definition FMath_Rand :: "draws \<Rightarrow> int \<times> draws" where
  "FMath_Rand g = (int (g 0 mod (RAND_MAX + 1)), advance g)"

definition FMath_FRand :: "draws \<Rightarrow> real \<times> draws" where
  "FMath_FRand g = (case FMath_Rand g of (r, g') \<Rightarrow> (real_of_int r / real RAND_MAX, g'))"

definition FMath_RandHelper :: "int \<Rightarrow> draws \<Rightarrow> int \<times> draws" where
  "FMath_RandHelper A g =
     (if 0 < A
      then case FMath_FRand g of (f, g') \<Rightarrow> (min (TruncToInt (f * real_of_int A)) (A - 1), g')
      else (0, g))"

definition FMath_RandRange :: "int \<Rightarrow> int \<Rightarrow> draws \<Rightarrow> int \<times> draws" where
  "FMath_RandRange lo hi g =
     (case FMath_RandHelper ((hi - lo) + 1) g of (r, g') \<Rightarrow> (lo + r, g'))"

text \<open>
  A seeded stream: each draw yields a 23-bit mantissa \<open>m\<close>, read as the fraction
  \<open>m / 2^23\<close> of the half-open unit interval.
\<close>

type_synonym FRandomStream = draws

type_synonym engine = "int \<Rightarrow> FRandomStream"

definition FRand :: "FRandomStream \<Rightarrow> real \<times> FRandomStream" where
  "FRand s = (real (s 0 mod 8388608) / 8388608, advance s)"

definition RandHelper :: "int \<Rightarrow> FRandomStream \<Rightarrow> int \<times> FRandomStream" where
  "RandHelper A s =
     (if 0 < A
      then case FRand s of (f, s') \<Rightarrow> (min (TruncToInt (f * real_of_int A)) (A - 1), s')
      else (0, s))"

definition RandRange :: "int \<Rightarrow> int \<Rightarrow> FRandomStream \<Rightarrow> int \<times> FRandomStream" where
  "RandRange lo hi s = (case RandHelper ((hi - lo) + 1) s of (r, s') \<Rightarrow> (lo + r, s'))"

definition FRandRange :: "real \<Rightarrow> real \<Rightarrow> FRandomStream \<Rightarrow> real \<times> FRandomStream" where
  "FRandRange lo hi s = (case FRand s of (f, s') \<Rightarrow> (lo + (hi - lo) * f, s'))"


section \<open>Weapon generator (ProceduralWeaponGenerator.h/.cpp)\<close>

datatype EWeaponType = Sword | Bow | Staff | Hammer | Spear | Dagger | Rifle | Pistol | Wand | Axe

datatype EWeaponRarity = Common | Uncommon | Rare | Epic | Legendary

datatype EElementalType = Fire | Ice | Lightning | Nature | Holy | Dark | Pure | Chaos

text \<open>\<open>static_cast<int32>(Weapon.Rarity)\<close>: the enumerators' declared values.\<close>

fun rarity_rank :: "EWeaponRarity \<Rightarrow> int" where
  "rarity_rank Common = 0"
| "rarity_rank Uncommon = 1"
| "rarity_rank Rare = 2"
| "rarity_rank Epic = 3"
| "rarity_rank Legendary = 4"

text \<open>
  \<open>static_cast<EElementalType>(n)\<close> and \<open>static_cast<EWeaponType>(n)\<close>. The argument always
  comes from \<open>FMath::RandRange(0, 7)\<close> resp. \<open>(0, 9)\<close>, which stays inside these bounds
  (lemma \<open>FMath_RandRange_bounds\<close>), so the last equation is only reached at the upper bound.
\<close>

definition EElementalType_of_int :: "int \<Rightarrow> EElementalType" where
  "EElementalType_of_int n =
     (if n = 0 then Fire else if n = 1 then Ice else if n = 2 then Lightning
      else if n = 3 then Nature else if n = 4 then Holy else if n = 5 then Dark
      else if n = 6 then Pure else Chaos)"

definition EWeaponType_of_int :: "int \<Rightarrow> EWeaponType" where
  "EWeaponType_of_int n =
     (if n = 0 then Sword else if n = 1 then Bow else if n = 2 then Staff
      else if n = 3 then Hammer else if n = 4 then Spear else if n = 5 then Dagger
      else if n = 6 then Rifle else if n = 7 then Pistol else if n = 8 then Wand else Axe)"

record FWeaponStat =
  Damage :: real
  CriticalChance :: real
  CriticalDamage :: real
  AttackSpeed :: real
  RangeW :: real
  SpecialAbilityPower :: real

record FWeapon =
  WeaponId :: string
  WeaponName :: string
  Type :: EWeaponType
  Rarity :: EWeaponRarity
  Element :: EElementalType
  Stats :: FWeaponStat
  RequiredLevel :: int
  Enchantments :: "string list"
  Weight :: real
  Description :: string
  GoldValue :: int
  bIsUnique :: bool

text \<open>The default member initialisers of \<open>FWeaponStat\<close> and \<open>FWeapon\<close>.\<close>

definition FWeaponStat_default :: FWeaponStat where
  "FWeaponStat_default =
     \<lparr>Damage = 10, CriticalChance = 5 / 100, CriticalDamage = 15 / 10, AttackSpeed = 1,
      RangeW = 100, SpecialAbilityPower = 0\<rparr>"

definition FWeapon_default :: FWeapon where
  "FWeapon_default =
     \<lparr>WeaponId = [], WeaponName = [], Type = Sword, Rarity = Common, Element = Pure,
      Stats = FWeaponStat_default, RequiredLevel = 1, Enchantments = [], Weight = 10,
      Description = [], GoldValue = 100, bIsUnique = False\<rparr>"

text \<open>The generator actor's properties and protected arrays.\<close>

record AProceduralWeaponGenerator =
  RandomSeed :: int
  MaxEnchantments :: int
  LegendaryChance :: real
  EpicChance :: real
  RareChance :: real
  GeneratedWeapons :: "FWeapon list"
  EnchantmentLibrary :: "string list"

definition InitializeEnchantmentLibrary :: "AProceduralWeaponGenerator \<Rightarrow> AProceduralWeaponGenerator" where
  "InitializeEnchantmentLibrary G =
     G\<lparr>EnchantmentLibrary :=
         [''Burning'', ''Freezing'', ''Shocking'', ''Poisoned'', ''Blessed'', ''Cursed'',
          ''Enchanted'', ''Sharpened'', ''Reinforced'', ''Ethereal'', ''Timeless'', ''Wise'',
          ''Mighty'', ''Swift'', ''Resilient'']\<rparr>"

definition BeginPlay :: "AProceduralWeaponGenerator \<Rightarrow> AProceduralWeaponGenerator" where
  "BeginPlay G = InitializeEnchantmentLibrary G"

text \<open>\<open>DetermineRarity\<close>: one draw from the process-wide generator, then the threshold chain.\<close>

definition DetermineRarity :: "AProceduralWeaponGenerator \<Rightarrow> draws \<Rightarrow> EWeaponRarity \<times> draws" where
  "DetermineRarity G g =
     (case FMath_FRand g of (Random, g') \<Rightarrow>
        (if Random < LegendaryChance G then Legendary
         else if Random < LegendaryChance G + EpicChance G then Epic
         else if Random < LegendaryChance G + EpicChance G + RareChance G then Rare
         else if Random < 4 / 10 then Uncommon
         else Common, g'))"

text \<open>
  \<open>CalculateWeaponStats\<close>. The stream it constructs from \<open>RandomSeed + Type\<close> is never drawn
  from, so it does not appear here. Fields a case does not assign keep their value.
\<close>

definition CalculateWeaponStats :: "FWeapon \<Rightarrow> int \<Rightarrow> FWeapon" where
  "CalculateWeaponStats W Level =
     (let LevelMultiplier = 1 + real_of_int Level * (1 / 10);
          RarityMultiplier = 1 + real_of_int (rarity_rank (Rarity W)) * (3 / 10);
          S = Stats W;
          W1 = (case Type W of
             Sword \<Rightarrow> W\<lparr>Stats := S\<lparr>Damage := 25 * LevelMultiplier * RarityMultiplier,
                                   AttackSpeed := 1, RangeW := 200\<rparr>, Weight := 15\<rparr>
           | Bow \<Rightarrow> W\<lparr>Stats := S\<lparr>Damage := 20 * LevelMultiplier * RarityMultiplier,
                                 AttackSpeed := 12 / 10, RangeW := 1000\<rparr>, Weight := 5\<rparr>
           | Staff \<Rightarrow> W\<lparr>Stats := S\<lparr>Damage := 15 * LevelMultiplier * RarityMultiplier,
                                   SpecialAbilityPower := 30 * RarityMultiplier,
                                   RangeW := 500\<rparr>, Weight := 8\<rparr>
           | Hammer \<Rightarrow> W\<lparr>Stats := S\<lparr>Damage := 35 * LevelMultiplier * RarityMultiplier,
                                    AttackSpeed := 7 / 10, CriticalDamage := 2,
                                    RangeW := 150\<rparr>, Weight := 25\<rparr>
           | Spear \<Rightarrow> W\<lparr>Stats := S\<lparr>Damage := 22 * LevelMultiplier * RarityMultiplier,
                                   AttackSpeed := 11 / 10, RangeW := 300\<rparr>, Weight := 12\<rparr>
           | Dagger \<Rightarrow> W\<lparr>Stats := S\<lparr>Damage := 15 * LevelMultiplier * RarityMultiplier,
                                    AttackSpeed := 15 / 10, CriticalChance := 2 / 10,
                                    RangeW := 100\<rparr>, Weight := 3\<rparr>
           | Rifle \<Rightarrow> W\<lparr>Stats := S\<lparr>Damage := 30 * LevelMultiplier * RarityMultiplier,
                                   AttackSpeed := 9 / 10, RangeW := 2000\<rparr>, Weight := 7\<rparr>
           | Pistol \<Rightarrow> W\<lparr>Stats := S\<lparr>Damage := 18 * LevelMultiplier * RarityMultiplier,
                                    AttackSpeed := 13 / 10, RangeW := 800\<rparr>, Weight := 4\<rparr>
           | Wand \<Rightarrow> W\<lparr>Stats := S\<lparr>Damage := 12 * LevelMultiplier * RarityMultiplier,
                                  SpecialAbilityPower := 40 * RarityMultiplier,
                                  RangeW := 600\<rparr>, Weight := 2\<rparr>
           | Axe \<Rightarrow> W\<lparr>Stats := S\<lparr>Damage := 32 * LevelMultiplier * RarityMultiplier,
                                 AttackSpeed := 8 / 10, RangeW := 180\<rparr>, Weight := 20\<rparr>)
      in W1\<lparr>Stats := (Stats W1)\<lparr>CriticalChance :=
               CriticalChance (Stats W1) + real_of_int (rarity_rank (Rarity W)) * (2 / 100)\<rparr>\<rparr>)"

text \<open>\<open>GenerateWeaponName\<close>: the three switches, then the concatenation of line 185.\<close>

definition GenerateWeaponName :: "EWeaponType \<Rightarrow> EWeaponRarity \<Rightarrow> EElementalType \<Rightarrow> string" where
  "GenerateWeaponName Type' Rarity' Element' =
     (let ElementName = (case Element' of
             Fire \<Rightarrow> ''Flaming'' | Ice \<Rightarrow> ''Frozen'' | Lightning \<Rightarrow> ''Thundering''
           | Nature \<Rightarrow> ''Natural'' | Holy \<Rightarrow> ''Holy'' | Dark \<Rightarrow> ''Dark'' | _ \<Rightarrow> '''');
          TypeName = (case Type' of
             Sword \<Rightarrow> ''Sword'' | Bow \<Rightarrow> ''Bow'' | Staff \<Rightarrow> ''Staff'' | Hammer \<Rightarrow> ''Hammer''
           | Spear \<Rightarrow> ''Spear'' | Dagger \<Rightarrow> ''Dagger'' | Rifle \<Rightarrow> ''Rifle''
           | Pistol \<Rightarrow> ''Pistol'' | Wand \<Rightarrow> ''Wand'' | Axe \<Rightarrow> ''Axe'');
          RarityPrefix = (case Rarity' of
             Legendary \<Rightarrow> ''Legendary '' | Epic \<Rightarrow> ''Epic '' | Rare \<Rightarrow> ''Rare ''
           | Uncommon \<Rightarrow> '''' | _ \<Rightarrow> '''')
      in RarityPrefix @ ElementName @ '' '' @ TypeName)"

text \<open>
  \<open>AddEnchantment\<close>: the early return at the cap consumes no draw; otherwise
  \<open>FMath::RandRange\<close> picks the library entry (with one draw, or with none and the index
  \<open>0\<close> while the library is empty), appended only if the index is valid. The \<open>Element\<close>
  argument is not read.
\<close>

definition AddEnchantment ::
  "AProceduralWeaponGenerator \<Rightarrow> FWeapon \<Rightarrow> EElementalType \<Rightarrow> draws \<Rightarrow> FWeapon \<times> draws" where
  "AddEnchantment G W Element' g =
     (if int (length (Enchantments W)) \<ge> MaxEnchantments G then (W, g)
      else case FMath_RandRange 0 (int (length (EnchantmentLibrary G)) - 1) g of
        (RandomIndex, g') \<Rightarrow>
          if RandomIndex \<ge> 0 \<and> RandomIndex < int (length (EnchantmentLibrary G))
          then (W\<lparr>Enchantments := Enchantments W @ [EnchantmentLibrary G ! nat RandomIndex]\<rparr>, g')
          else (W, g'))"

definition CalculateWeaponValue :: "FWeapon \<Rightarrow> int" where
  "CalculateWeaponValue W =
     (let BaseValue = 100;
          RarityValue = rarity_rank (Rarity W) * 200;
          StatsValue = TruncToInt (Damage (Stats W) * 5);
          EnchantmentValue = int (length (Enchantments W)) * 150
      in BaseValue + RarityValue + StatsValue + EnchantmentValue)"

text \<open>The enchantment count switch of \<open>GenerateWeapon\<close> (lines 206-214).\<close>

fun NumEnchantments_of :: "EWeaponRarity \<Rightarrow> int" where
  "NumEnchantments_of Legendary = 4"
| "NumEnchantments_of Epic = 3"
| "NumEnchantments_of Rare = 2"
| "NumEnchantments_of Uncommon = 1"
| "NumEnchantments_of _ = 0"

text \<open>The loop \<open>for (i = 0; i < NumEnchantments && i < MaxEnchantments; i++)\<close>.\<close>

function AddEnchantments_loop ::
  "AProceduralWeaponGenerator \<Rightarrow> int \<Rightarrow> int \<Rightarrow> FWeapon \<Rightarrow> draws \<Rightarrow> FWeapon \<times> draws" where
  "AddEnchantments_loop G NumEnchantments i W g =
     (if i < NumEnchantments \<and> i < MaxEnchantments G
      then case AddEnchantment G W (Element W) g of
             (W', g') \<Rightarrow> AddEnchantments_loop G NumEnchantments (i + 1) W' g'
      else (W, g))"
  by pat_completeness auto
termination
  by (relation "measure (\<lambda>(G, N, i, W, g). nat (N - i))") auto

declare AddEnchantments_loop.simps [simp del]

definition GenerateWeapon ::
  "AProceduralWeaponGenerator \<Rightarrow> EWeaponType \<Rightarrow> int \<Rightarrow> draws \<Rightarrow> FWeapon \<times> draws" where
  "GenerateWeapon G Type' Level g =
     (case FMath_Rand g of (id_number, g1) \<Rightarrow>
      case DetermineRarity G g1 of (rarity, g2) \<Rightarrow>
      case FMath_RandRange 0 7 g2 of (element_number, g3) \<Rightarrow>
        let W0 = FWeapon_default\<lparr>WeaponId := Printf_d ''WPN_'' id_number, Type := Type',
                                  Rarity := rarity, RequiredLevel := Level,
                                  Element := EElementalType_of_int element_number\<rparr>;
            W1 = W0\<lparr>WeaponName := GenerateWeaponName Type' (Rarity W0) (Element W0)\<rparr>;
            W2 = CalculateWeaponStats W1 Level
        in case AddEnchantments_loop G (NumEnchantments_of (Rarity W2)) 0 W2 g3 of
             (W3, g4) \<Rightarrow> (W3\<lparr>GoldValue := CalculateWeaponValue W3\<rparr>, g4))"

definition GenerateRandomWeapon ::
  "AProceduralWeaponGenerator \<Rightarrow> int \<Rightarrow> draws \<Rightarrow> FWeapon \<times> draws" where
  "GenerateRandomWeapon G Level g =
     (case FMath_RandRange 0 9 g of (type_number, g') \<Rightarrow>
        GenerateWeapon G (EWeaponType_of_int type_number) Level g')"


section \<open>City generator (ProceduralCityGenerator.h/.cpp)\<close>

datatype EBuildingType =
  Residential | Commercial | Industrial | Government | Religious | Military | Educational
  | Entertainment | Infrastructure

text \<open>
  \<open>static_cast<EBuildingType>(n)\<close> for the \<open>n\<close> of \<open>RandomStream.RandRange(0, 8)\<close>, which
  stays inside \<open>0..8\<close> (lemma \<open>RandRange_bounds\<close>).
\<close>

definition EBuildingType_of_int :: "int \<Rightarrow> EBuildingType" where
  "EBuildingType_of_int n =
     (if n = 0 then Residential else if n = 1 then Commercial else if n = 2 then Industrial
      else if n = 3 then Government else if n = 4 then Religious else if n = 5 then Military
      else if n = 6 then Educational else if n = 7 then Entertainment else Infrastructure)"

record FBuilding =
  BuildingId :: string
  Location :: FVector
  Size :: FVector
  BuildingType :: EBuildingType
  Floors :: int
  Material :: string
  Rotation :: real
  bHasGarden :: bool
  Population :: int

record FRoad =
  StartPoint :: FVector
  EndPoint :: FVector
  Width :: real
  RoadType :: string

record FDistrict =
  DistrictName :: string
  Center :: FVector
  Radius :: real
  Buildings :: "FBuilding list"
  Population :: int
  DistrictType :: string

text \<open>
  The actor: its editable properties, its position (\<open>GetActorLocation()\<close>) and the two
  protected arrays. \<open>CityActors\<close> holds spawned proxies of the host world and is left out.
\<close>

record AProceduralCityGenerator =
  CityName :: string
  CityPopulation :: int
  CityRadius :: real
  NumberOfDistricts :: int
  BuildingsPerDistrict :: int
  BuildingDensity :: real
  RandomSeed :: int
  ActorLocation :: FVector
  Districts :: "FDistrict list"
  RoadNetwork :: "FRoad list"

text \<open>\<open>int32\<close> division truncates towards zero; the source never divides by zero where it divides.\<close>

definition cdiv :: "int \<Rightarrow> int \<Rightarrow> int" where
  "cdiv a b = sgn a * sgn b * (\<bar>a\<bar> div \<bar>b\<bar>)"

definition cmod :: "int \<Rightarrow> int \<Rightarrow> int" where
  "cmod a b = a - b * cdiv a b"

definition ClearCity :: "AProceduralCityGenerator \<Rightarrow> AProceduralCityGenerator" where
  "ClearCity C = C\<lparr>Districts := [], RoadNetwork := []\<rparr>"

text \<open>\<open>CreateDistrict\<close>: empties the building list of an existing district, else nothing.\<close>

definition CreateDistrict :: "FDistrict list \<Rightarrow> int \<Rightarrow> FDistrict list" where
  "CreateDistrict ds Index =
     (if 0 \<le> Index \<and> Index < int (length ds)
      then ds[nat Index := (ds ! nat Index)\<lparr>Buildings := []\<rparr>]
      else ds)"

text \<open>The members of \<open>FDistrict\<close>, \<open>FBuilding\<close> and \<open>FRoad\<close> before the generator assigns them.\<close>

definition FVector_zero :: FVector where
  "FVector_zero = \<lparr>vX = 0, vY = 0, vZ = 0\<rparr>"

definition FDistrict_default :: FDistrict where
  "FDistrict_default =
     \<lparr>DistrictName = [], Center = FVector_zero, Radius = 500, Buildings = [],
      FDistrict.Population = 0, DistrictType = []\<rparr>"

definition FBuilding_default :: FBuilding where
  "FBuilding_default =
     \<lparr>BuildingId = [], Location = FVector_zero, Size = FVector_zero,
      BuildingType = Residential, Floors = 1, Material = [], Rotation = 0,
      bHasGarden = False, FBuilding.Population = 0\<rparr>"

text \<open>The body of the loop of \<open>GenerateDistricts\<close> up to the type draw (lines 40-54).\<close>

definition District_layout :: "AProceduralCityGenerator \<Rightarrow> int \<Rightarrow> FDistrict" where
  "District_layout C i =
     (let AngleBetweenDistricts = 360 / real_of_int (NumberOfDistricts C);
          Angle = DegreesToRadians (real_of_int i * AngleBetweenDistricts);
          DistanceFromCenter = CityRadius C * (6 / 10)
      in FDistrict_default
           \<lparr>DistrictName := Printf_d ''District_'' i,
            Center := FVector_add (ActorLocation C)
                        \<lparr>vX = cos Angle * DistanceFromCenter,
                         vY = sin Angle * DistanceFromCenter, vZ = 0\<rparr>,
            Radius := CityRadius C / (real_of_int (NumberOfDistricts C) * (5 / 10)),
            FDistrict.Population := cdiv (CityPopulation C) (NumberOfDistricts C)\<rparr>)"

definition DistrictType_of_choice :: "int \<Rightarrow> string \<Rightarrow> string" where
  "DistrictType_of_choice TypeChoice old =
     (if TypeChoice = 0 then ''residential'' else if TypeChoice = 1 then ''commercial''
      else if TypeChoice = 2 then ''industrial'' else if TypeChoice = 3 then ''mixed''
      else old)"

function GenerateDistricts_loop ::
  "AProceduralCityGenerator \<Rightarrow> int \<Rightarrow> FRandomStream \<Rightarrow> FDistrict list \<Rightarrow> FDistrict list" where
  "GenerateDistricts_loop C i RandomStream ds =
     (if i < NumberOfDistricts C
      then case RandRange 0 3 RandomStream of (TypeChoice, RandomStream') \<Rightarrow>
             let District = District_layout C i;
                 District' = District\<lparr>DistrictType :=
                                DistrictType_of_choice TypeChoice (DistrictType District)\<rparr>
             in GenerateDistricts_loop C (i + 1) RandomStream'
                  (CreateDistrict ds i @ [District'])
      else ds)"
  by pat_completeness auto
termination
  by (relation "measure (\<lambda>(C, i, s, ds). nat (NumberOfDistricts C - i))") auto

declare GenerateDistricts_loop.simps [simp del]

definition GenerateDistricts :: "engine \<Rightarrow> AProceduralCityGenerator \<Rightarrow> AProceduralCityGenerator" where
  "GenerateDistricts E C =
     C\<lparr>Districts := GenerateDistricts_loop C 0 (E (AProceduralCityGenerator.RandomSeed C)) []\<rparr>"

text \<open>
  \<open>GenerateRoadNetwork\<close>: per district a main road to the next district of the ring and a
  secondary road to the actor's location. The stream of \<open>RandomSeed + 1\<close> is never drawn from.
\<close>

definition Roads_of_district :: "AProceduralCityGenerator \<Rightarrow> nat \<Rightarrow> FRoad list" where
  "Roads_of_district C i =
     (let NextDistrict = (i + 1) mod length (Districts C)
      in [\<lparr>StartPoint = Center (Districts C ! i), EndPoint = Center (Districts C ! NextDistrict),
           Width = 25, RoadType = ''main''\<rparr>,
          \<lparr>StartPoint = Center (Districts C ! i), EndPoint = ActorLocation C,
           Width = 15, RoadType = ''secondary''\<rparr>])"

definition GenerateRoadNetwork :: "AProceduralCityGenerator \<Rightarrow> AProceduralCityGenerator" where
  "GenerateRoadNetwork C =
     C\<lparr>RoadNetwork := concat (map (Roads_of_district C) [0 ..< length (Districts C)])\<rparr>"

text \<open>\<open>GenerateRandomLocationInDistrict\<close>: a fresh stream of \<open>RandomSeed + 3\<close> on every call.\<close>

definition GenerateRandomLocationInDistrict ::
  "engine \<Rightarrow> AProceduralCityGenerator \<Rightarrow> FDistrict \<Rightarrow> FVector" where
  "GenerateRandomLocationInDistrict E C District =
     (case FRand (E (AProceduralCityGenerator.RandomSeed C + 3)) of (f1, s1) \<Rightarrow>
      case FRand s1 of (f2, s2) \<Rightarrow>
        let RandomAngle = DegreesToRadians (f1 * 360);
            RandomDistance = f2 * Radius District * (8 / 10)
        in FVector_add (Center District)
             \<lparr>vX = cos RandomAngle * RandomDistance, vY = sin RandomAngle * RandomDistance,
              vZ = 0\<rparr>)"

text \<open>
  \<open>GenerateBuilding\<close>: a fresh stream of \<open>RandomSeed + DistrictIndex * 100\<close>. The three
  \<open>FRandRange\<close> arguments of a size are drawn here in the order X, Y, Z.
\<close>

definition Building_shape ::
  "real \<Rightarrow> real \<Rightarrow> real \<Rightarrow> real \<Rightarrow> (FRandomStream \<Rightarrow> int \<times> FRandomStream) \<Rightarrow> string
   \<Rightarrow> FBuilding \<Rightarrow> FRandomStream \<Rightarrow> FBuilding" where
  "Building_shape lo hi zlo zhi floors material B s =
     (case FRandRange lo hi s of (x, s1) \<Rightarrow>
      case FRandRange lo hi s1 of (y, s2) \<Rightarrow>
      case FRandRange zlo zhi s2 of (z, s3) \<Rightarrow>
      case floors s3 of (fl, s4) \<Rightarrow>
        B\<lparr>Size := \<lparr>vX = x, vY = y, vZ = z\<rparr>, Floors := fl, Material := material\<rparr>)"

definition GenerateBuilding ::
  "engine \<Rightarrow> AProceduralCityGenerator \<Rightarrow> EBuildingType \<Rightarrow> FVector \<Rightarrow> int \<Rightarrow> FBuilding" where
  "GenerateBuilding E C Type' Location' DistrictIndex =
     (case RandRange 10000 99999 (E (AProceduralCityGenerator.RandomSeed C + DistrictIndex * 100))
        of (id_number, s1) \<Rightarrow>
      case FRand s1 of (f, s2) \<Rightarrow>
      case RandRange 10 500 s2 of (pop, s3) \<Rightarrow>
        let B = FBuilding_default
                  \<lparr>BuildingId := Printf_d ''Building_'' id_number, Location := Location',
                   BuildingType := Type', Rotation := f * 360, FBuilding.Population := pop\<rparr>
        in (case Type' of
              Residential \<Rightarrow> Building_shape 20 50 30 100 (RandRange 1 5) ''Brick'' B s3
            | Commercial \<Rightarrow> Building_shape 50 100 50 150 (RandRange 3 10) ''Glass'' B s3
            | Industrial \<Rightarrow> Building_shape 100 200 30 80 (\<lambda>s. (1, s)) ''Concrete'' B s3
            | Government \<Rightarrow> Building_shape 80 120 80 200 (RandRange 5 8) ''Marble'' B s3
            | _ \<Rightarrow> Building_shape 30 60 40 120 (RandRange 2 6) ''Mixed'' B s3))"

text \<open>
  \<open>PopulateDistricts\<close>: one stream of \<open>RandomSeed + 2\<close> runs through all districts. The inner
  loop over \<open>j\<close> appends to the district's buildings; \<open>continue\<close> is the first branch.
  No call of \<open>IsValidBuildingLocation\<close> occurs.
\<close>

definition BuildingType_for ::
  "FDistrict \<Rightarrow> FRandomStream \<Rightarrow> EBuildingType \<times> FRandomStream" where
  "BuildingType_for District s =
     (if DistrictType District = ''residential'' then (Residential, s)
      else if DistrictType District = ''commercial'' then (Commercial, s)
      else if DistrictType District = ''industrial'' then (Industrial, s)
      else case RandRange 0 8 s of (n, s') \<Rightarrow> (EBuildingType_of_int n, s'))"

function PopulateDistrict_loop ::
  "engine \<Rightarrow> AProceduralCityGenerator \<Rightarrow> int \<Rightarrow> int \<Rightarrow> FDistrict \<Rightarrow> FRandomStream
   \<Rightarrow> FDistrict \<times> FRandomStream" where
  "PopulateDistrict_loop E C i j District RandomStream =
     (if j < BuildingsPerDistrict C
      then case FRand RandomStream of (f, s1) \<Rightarrow>
             if f > BuildingDensity C
             then PopulateDistrict_loop E C i (j + 1) District s1
             else let BuildingLocation = GenerateRandomLocationInDistrict E C District
                  in case BuildingType_for District s1 of (BuildingType', s2) \<Rightarrow>
                       let Building = GenerateBuilding E C BuildingType' BuildingLocation i
                       in PopulateDistrict_loop E C i (j + 1)
                            (District\<lparr>Buildings := Buildings District @ [Building]\<rparr>) s2
      else (District, RandomStream))"
  by pat_completeness auto
termination
  by (relation "measure (\<lambda>(E, C, i, j, D, s). nat (BuildingsPerDistrict C - j))") auto

declare PopulateDistrict_loop.simps [simp del]

function PopulateDistricts_loop ::
  "engine \<Rightarrow> AProceduralCityGenerator \<Rightarrow> nat \<Rightarrow> FDistrict list \<Rightarrow> FRandomStream
   \<Rightarrow> FDistrict list \<times> FRandomStream" where
  "PopulateDistricts_loop E C i ds RandomStream =
     (if i < length ds
      then case PopulateDistrict_loop E C (int i) 0 (ds ! i) RandomStream of (District', s') \<Rightarrow>
             PopulateDistricts_loop E C (i + 1) (ds[i := District']) s'
      else (ds, RandomStream))"
  by pat_completeness auto
termination
  by (relation "measure (\<lambda>(E, C, i, ds, s). length ds - i)") auto

declare PopulateDistricts_loop.simps [simp del]

definition PopulateDistricts :: "engine \<Rightarrow> AProceduralCityGenerator \<Rightarrow> AProceduralCityGenerator" where
  "PopulateDistricts E C =
     C\<lparr>Districts := fst (PopulateDistricts_loop E C 0 (Districts C)
                           (E (AProceduralCityGenerator.RandomSeed C + 2)))\<rparr>"

text \<open>\<open>IsValidBuildingLocation\<close>: defined by the generator, called nowhere.\<close>

definition IsValidBuildingLocation :: "AProceduralCityGenerator \<Rightarrow> FVector \<Rightarrow> real \<Rightarrow> bool" where
  "IsValidBuildingLocation C Location' BuildingSize =
     list_all (\<lambda>District.
        list_all (\<lambda>Building.
           \<not> Dist Location' (Location Building)
               < BuildingSize + max (vX (Size Building)) (vY (Size Building)))
          (Buildings District))
       (Districts C)"

definition GenerateCity :: "engine \<Rightarrow> AProceduralCityGenerator \<Rightarrow> AProceduralCityGenerator" where
  "GenerateCity E C = PopulateDistricts E (GenerateRoadNetwork (GenerateDistricts E (ClearCity C)))"


section \<open>Terrain generator (ProceduralTerrainGenerator.h/.cpp)\<close>

datatype EBiomeType = Plains | Forest | Desert | Mountain | Tundra | Volcanic | Jungle | Ocean

record FTerrainCell =
  Height :: real
  Moisture :: real
  Temperature :: real
  BiomeType :: EBiomeType
  Objects :: "string list"
  bWalkable :: bool

definition FTerrainCell_default :: FTerrainCell where
  "FTerrainCell_default =
     \<lparr>Height = 0, Moisture = 0, Temperature = 5 / 10, BiomeType = Plains, Objects = [],
      bWalkable = True\<rparr>"

text \<open>The actor's properties and its grid; \<open>VegetationActors\<close> belongs to the host world.\<close>

record AProceduralTerrainGenerator =
  TerrainWidth :: int
  TerrainHeight :: int
  CellSize :: real
  NoiseScale :: real
  NoiseOctaves :: int
  NoisePersistence :: real
  NoiseFrequency :: real
  RandomSeed :: int
  TreeDensity :: real
  RockDensity :: real
  BushDensity :: real
  TerrainGrid :: "FTerrainCell list"

text \<open>The three map passes: each runs over the cells the grid holds when it is called.\<close>

fun GenerateHeightMap :: "FTerrainCell list \<Rightarrow> draws \<Rightarrow> FTerrainCell list \<times> draws" where
  "GenerateHeightMap [] g = ([], g)"
| "GenerateHeightMap (c # cs) g =
     (case FMath_FRand g of (f, g') \<Rightarrow>
      case GenerateHeightMap cs g' of (cs', g'') \<Rightarrow> (c\<lparr>Height := f * 2 - 1\<rparr> # cs', g''))"

definition GenerateMoistureMap :: "FTerrainCell list \<Rightarrow> FTerrainCell list" where
  "GenerateMoistureMap grid = map (\<lambda>c. c\<lparr>Moisture := max 0 (1 - Height c * (5 / 10))\<rparr>) grid"

definition GenerateTemperatureMap ::
  "AProceduralTerrainGenerator \<Rightarrow> FTerrainCell list \<Rightarrow> FTerrainCell list" where
  "GenerateTemperatureMap T grid =
     map (\<lambda>(i, c).
            let LatitudeFactor = real_of_int (cdiv (int i) (TerrainHeight T))
                                   / real_of_int (TerrainHeight T)
            in c\<lparr>Temperature :=
                   Clamp (5 / 10 + Height c * (3 / 10) - LatitudeFactor * (4 / 10)) 0 1\<rparr>)
         (enumerate 0 grid)"

text \<open>
  \<open>GetPerlinNoise\<close>: the octave loop returns \<open>Value\<close> and \<open>MaxValue\<close>. With no octave the source
  divides zero by zero; the quotient below is then \<open>0\<close>, and nothing is stated for that case.
\<close>

function PerlinNoise_loop ::
  "AProceduralTerrainGenerator \<Rightarrow> int \<Rightarrow> FRandomStream \<Rightarrow> real \<Rightarrow> real \<Rightarrow> real \<Rightarrow> real
   \<Rightarrow> real \<times> real" where
  "PerlinNoise_loop T i Random Value Amplitude Frequency MaxValue =
     (if i < NoiseOctaves T
      then case FRand Random of (f, Random') \<Rightarrow>
             PerlinNoise_loop T (i + 1) Random' (Value + f * Amplitude)
               (Amplitude * NoisePersistence T) (Frequency * 2) (MaxValue + Amplitude)
      else (Value, MaxValue))"
  by pat_completeness auto
termination
  by (relation "measure (\<lambda>(T, i, s, v, a, f, m). nat (NoiseOctaves T - i))") auto

declare PerlinNoise_loop.simps [simp del]

definition GetPerlinNoise ::
  "engine \<Rightarrow> AProceduralTerrainGenerator \<Rightarrow> real \<Rightarrow> real \<Rightarrow> int \<Rightarrow> real" where
  "GetPerlinNoise E T X Y Seed =
     (case PerlinNoise_loop T 0 (E (Seed + TruncToInt (X + Y * 1000))) 0 1 1 0 of
        (Value, MaxValue) \<Rightarrow> Value / MaxValue)"

definition DetermineBiome :: "real \<Rightarrow> real \<Rightarrow> real \<Rightarrow> EBiomeType" where
  "DetermineBiome Height' Moisture' Temperature' =
     (if Height' < - (3 / 10) then Ocean
      else if Height' > 7 / 10 then Mountain
      else if Temperature' < 2 / 10 then Tundra
      else if Temperature' > 8 / 10 \<and> Moisture' > 6 / 10 then Jungle
      else if Temperature' > 8 / 10 \<and> Moisture' < 3 / 10 then Desert
      else if Height' > 4 / 10 \<and> Moisture' > 5 / 10 then Forest
      else if Temperature' > 6 / 10 \<and> Height' > 5 / 10 then Volcanic
      else Plains)"

text \<open>The cell built by the body of the fill loops (lines 39-44) from its moisture draw.\<close>

definition Terrain_cell ::
  "engine \<Rightarrow> AProceduralTerrainGenerator \<Rightarrow> int \<Rightarrow> int \<Rightarrow> real \<Rightarrow> FTerrainCell" where
  "Terrain_cell E T X Y moisture =
     (let h = GetPerlinNoise E T (real_of_int X) (real_of_int Y)
                (AProceduralTerrainGenerator.RandomSeed T);
          t = Clamp (5 / 10 + h * (5 / 10)) 0 1
      in FTerrainCell_default
           \<lparr>Height := h, Moisture := moisture, Temperature := t,
            BiomeType := DetermineBiome h moisture t, bWalkable := (h > - (3 / 10))\<rparr>)"

text \<open>The inner loop over \<open>Y\<close> and the outer loop over \<open>X\<close>; each cell is added at the end.\<close>

function GenerateTerrain_column ::
  "engine \<Rightarrow> AProceduralTerrainGenerator \<Rightarrow> int \<Rightarrow> int \<Rightarrow> FTerrainCell list \<Rightarrow> draws
   \<Rightarrow> FTerrainCell list \<times> draws" where
  "GenerateTerrain_column E T X Y grid g =
     (if Y < TerrainHeight T
      then case FMath_FRand g of (moisture, g') \<Rightarrow>
             GenerateTerrain_column E T X (Y + 1) (grid @ [Terrain_cell E T X Y moisture]) g'
      else (grid, g))"
  by pat_completeness auto
termination
  by (relation "measure (\<lambda>(E, T, X, Y, grid, g). nat (TerrainHeight T - Y))") auto

declare GenerateTerrain_column.simps [simp del]

function GenerateTerrain_fill ::
  "engine \<Rightarrow> AProceduralTerrainGenerator \<Rightarrow> int \<Rightarrow> FTerrainCell list \<Rightarrow> draws
   \<Rightarrow> FTerrainCell list \<times> draws" where
  "GenerateTerrain_fill E T X grid g =
     (if X < TerrainWidth T
      then case GenerateTerrain_column E T X 0 grid g of (grid', g') \<Rightarrow>
             GenerateTerrain_fill E T (X + 1) grid' g'
      else (grid, g))"
  by pat_completeness auto
termination
  by (relation "measure (\<lambda>(E, T, X, grid, g). nat (TerrainWidth T - X))") auto

declare GenerateTerrain_fill.simps [simp del]

text \<open>
  \<open>GenerateTerrain\<close>: the grid is emptied, the three map passes run over the emptied grid, then
  the fill loops add the cells. \<open>Reserve\<close> changes no content, and the stream of line 27 is
  never drawn from.
\<close>

definition GenerateTerrain ::
  "engine \<Rightarrow> AProceduralTerrainGenerator \<Rightarrow> draws \<Rightarrow> AProceduralTerrainGenerator \<times> draws" where
  "GenerateTerrain E T g =
     (case GenerateHeightMap [] g of (grid1, g1) \<Rightarrow>
        let grid2 = GenerateMoistureMap grid1;
            grid3 = GenerateTemperatureMap T grid2
        in (case GenerateTerrain_fill E T 0 grid3 g1 of (grid4, g2) \<Rightarrow>
              (T\<lparr>TerrainGrid := grid4\<rparr>, g2)))"

text \<open>
  \<open>GenerateVegetation\<close> reads the coordinate of the cell at index \<open>i\<close> as
  \<open>(i % TerrainWidth, i / TerrainWidth)\<close> (lines 140-141).
\<close>

definition Vegetation_coordinate :: "AProceduralTerrainGenerator \<Rightarrow> int \<Rightarrow> int \<times> int" where
  "Vegetation_coordinate T i = (cmod i (TerrainWidth T), cdiv i (TerrainWidth T))"

definition Vegetation_roll :: "real \<Rightarrow> string \<Rightarrow> FTerrainCell \<Rightarrow> FRandomStream \<Rightarrow> FTerrainCell \<times> FRandomStream" where
  "Vegetation_roll density tag c s =
     (case FRand s of (f, s') \<Rightarrow> (if f < density then c\<lparr>Objects := Objects c @ [tag]\<rparr> else c, s'))"

fun GenerateVegetation_loop ::
  "AProceduralTerrainGenerator \<Rightarrow> int \<Rightarrow> FTerrainCell list \<Rightarrow> FRandomStream \<Rightarrow> FTerrainCell list" where
  "GenerateVegetation_loop T i [] s = []"
| "GenerateVegetation_loop T i (Cell # cells) s =
     (if \<not> bWalkable Cell then Cell # GenerateVegetation_loop T (i + 1) cells s
      else case Vegetation_coordinate T i of (CellX, CellY) \<Rightarrow>
        let Location' = \<lparr>vX = real_of_int CellX * CellSize T, vY = real_of_int CellY * CellSize T,
                          vZ = Height Cell * 1000\<rparr>
        in (case (if BiomeType Cell = Forest \<or> BiomeType Cell = Jungle
                  then Vegetation_roll (TreeDensity T) ''tree'' Cell s else (Cell, s)) of
              (c1, s1) \<Rightarrow>
            case Vegetation_roll (RockDensity T) ''rock'' c1 s1 of (c2, s2) \<Rightarrow>
            case Vegetation_roll (BushDensity T) ''bush'' c2 s2 of (c3, s3) \<Rightarrow>
              c3 # GenerateVegetation_loop T (i + 1) cells s3))"

definition GenerateVegetation ::
  "engine \<Rightarrow> AProceduralTerrainGenerator \<Rightarrow> AProceduralTerrainGenerator" where
  "GenerateVegetation E T =
     T\<lparr>TerrainGrid := GenerateVegetation_loop T 0 (TerrainGrid T)
                         (E (AProceduralTerrainGenerator.RandomSeed T))\<rparr>"


section \<open>The configuration domain of the specification\<close>

text \<open>
  The generators contain no check of their options. The domain the specification gives for
  the city options (city radius and district count positive, buildings per district not
  negative, building density in the unit interval) is written down here to state what the
  code does outside it.
\<close>

definition valid_city_configuration :: "AProceduralCityGenerator \<Rightarrow> bool" where
  "valid_city_configuration C \<longleftrightarrow>
     0 < CityRadius C \<and> 0 < NumberOfDistricts C \<and> 0 \<le> BuildingsPerDistrict C
     \<and> 0 \<le> BuildingDensity C \<and> BuildingDensity C \<le> 1"


section \<open>Concrete generators and random sources used in the evaluations\<close>

text \<open>The three actors with the default values of their headers.\<close>

definition AProceduralWeaponGenerator_default :: AProceduralWeaponGenerator where
  "AProceduralWeaponGenerator_default =
     \<lparr>AProceduralWeaponGenerator.RandomSeed = 999, MaxEnchantments = 3,
      LegendaryChance = 1 / 100, EpicChance = 5 / 100, RareChance = 15 / 100,
      GeneratedWeapons = [], EnchantmentLibrary = []\<rparr>"

definition AProceduralCityGenerator_default :: AProceduralCityGenerator where
  "AProceduralCityGenerator_default =
     \<lparr>CityName = ''ProceduralCity'', CityPopulation = 100000, CityRadius = 5000,
      NumberOfDistricts = 8, BuildingsPerDistrict = 50, BuildingDensity = 6 / 10,
      AProceduralCityGenerator.RandomSeed = 42, ActorLocation = FVector_zero,
      Districts = [], RoadNetwork = []\<rparr>"

definition AProceduralTerrainGenerator_default :: AProceduralTerrainGenerator where
  "AProceduralTerrainGenerator_default =
     \<lparr>TerrainWidth = 256, TerrainHeight = 256, CellSize = 100, NoiseScale = 50,
      NoiseOctaves = 4, NoisePersistence = 5 / 10, NoiseFrequency = 1 / 100,
      AProceduralTerrainGenerator.RandomSeed = 12345, TreeDensity = 3 / 10,
      RockDensity = 2 / 10, BushDensity = 25 / 100, TerrainGrid = []\<rparr>"

text \<open>A weapon generator whose three chances add up to more than \<open>0.4\<close>.\<close>

definition malformed_bands :: AProceduralWeaponGenerator where
  "malformed_bands = AProceduralWeaponGenerator_default
     \<lparr>LegendaryChance := 5 / 10, EpicChance := 5 / 10, RareChance := 5 / 10\<rparr>"

text \<open>A weapon generator whose cap on enchantments is negative.\<close>

definition negative_cap :: AProceduralWeaponGenerator where
  "negative_cap = AProceduralWeaponGenerator_default\<lparr>MaxEnchantments := - 1\<rparr>"

text \<open>A city with a radius of zero and a density of two, one district, one building.\<close>

definition invalid_city :: AProceduralCityGenerator where
  "invalid_city = AProceduralCityGenerator_default
     \<lparr>CityRadius := 0, NumberOfDistricts := 1, BuildingsPerDistrict := 1,
      BuildingDensity := 2\<rparr>"

text \<open>A valid city of one district with two buildings, each attempt kept.\<close>

definition two_building_city :: AProceduralCityGenerator where
  "two_building_city = AProceduralCityGenerator_default
     \<lparr>NumberOfDistricts := 1, BuildingsPerDistrict := 2, BuildingDensity := 1\<rparr>"

text \<open>The default terrain on a grid of two by two cells.\<close>

definition small_terrain :: AProceduralTerrainGenerator where
  "small_terrain = AProceduralTerrainGenerator_default\<lparr>TerrainWidth := 2, TerrainHeight := 2\<rparr>"

text \<open>
  Two engines: one whose every stream yields the mantissa \<open>0\<close>, and one whose stream for a seed
  keeps yielding that seed as mantissa.
\<close>

definition zero_engine :: engine where
  "zero_engine = (\<lambda>seed k. 0)"

definition seed_echo_engine :: engine where
  "seed_echo_engine = (\<lambda>seed k. nat seed)"

text \<open>
  Three states of the process-wide generator: one whose first three values are \<open>0\<close> and all
  later ones \<open>RAND_MAX\<close>, one that counts \<open>0, 1, 2, \<dots>\<close> and one that counts down from
  \<open>RAND_MAX\<close>.
\<close>

definition low_then_high :: draws where
  "low_then_high = (\<lambda>k. if k < 3 then 0 else 32767)"

definition rising :: draws where
  "rising = (\<lambda>k. k)"

definition falling :: draws where
  "falling = (\<lambda>k. 32767 - k)"

text \<open>The city of \<open>two_building_city\<close> after layout and roads, before population.\<close>

definition laid_out_city :: AProceduralCityGenerator where
  "laid_out_city = GenerateRoadNetwork (GenerateDistricts zero_engine (ClearCity two_building_city))"


section \<open>Auxiliary notions of the proofs\<close>

text \<open>A building stands at \<open>p\<close> with a footprint of positive width and depth.\<close>

definition placed_at :: "FVector \<Rightarrow> FBuilding \<Rightarrow> bool" where
  "placed_at p B \<longleftrightarrow> Location B = p \<and> 0 < vX (Size B) \<and> 0 < vY (Size B)"

text \<open>A random source after \<open>n\<close> draws.\<close>

definition drop_draws :: "nat \<Rightarrow> draws \<Rightarrow> draws" where
  "drop_draws n g = (\<lambda>k. g (n + k))"

text \<open>
  The cells one run of the inner loop adds for column \<open>X\<close> from row \<open>Y\<close> on, and the cells
  the outer loop adds from column \<open>X\<close> on.
\<close>

definition column_cells ::
  "engine \<Rightarrow> AProceduralTerrainGenerator \<Rightarrow> int \<Rightarrow> int \<Rightarrow> nat \<Rightarrow> draws \<Rightarrow> FTerrainCell list" where
  "column_cells E T X Y n g =
     map (\<lambda>k. Terrain_cell E T X (Y + int k) (fst (FMath_FRand (drop_draws k g)))) [0 ..< n]"

definition fill_cells ::
  "engine \<Rightarrow> AProceduralTerrainGenerator \<Rightarrow> int \<Rightarrow> nat \<Rightarrow> draws \<Rightarrow> FTerrainCell list" where
  "fill_cells E T X w g =
     concat (map (\<lambda>i. column_cells E T (X + int i) 0 (nat (TerrainHeight T))
                          (drop_draws (i * nat (TerrainHeight T)) g)) [0 ..< w])"


section \<open>Random sources stay inside their bounds\<close>

lemma FMath_FRand_nonneg: "0 \<le> fst (FMath_FRand g)"
  by (simp add: FMath_FRand_def FMath_Rand_def)

lemma FMath_FRand_le_1: "fst (FMath_FRand g) \<le> 1"
  by (simp add: FMath_FRand_def FMath_Rand_def RAND_MAX_def)

lemma FMath_RandHelper_bounds:
  assumes "0 < A"
  shows "0 \<le> fst (FMath_RandHelper A g) \<and> fst (FMath_RandHelper A g) < A"
proof -
  obtain f g' where a: "FMath_FRand g = (f, g')" by fastforce
  have "0 \<le> f" using FMath_FRand_nonneg [of g] a by simp
  with assms show ?thesis
    by (simp add: FMath_RandHelper_def a TruncToInt_def)
qed

lemma FMath_RandHelper_empty: "A \<le> 0 \<Longrightarrow> FMath_RandHelper A g = (0, g)"
  by (simp add: FMath_RandHelper_def)

lemma FMath_RandRange_bounds:
  assumes "lo \<le> hi"
  shows "lo \<le> fst (FMath_RandRange lo hi g) \<and> fst (FMath_RandRange lo hi g) \<le> hi"
proof -
  obtain r g' where a: "FMath_RandHelper (hi - lo + 1) g = (r, g')" by fastforce
  from FMath_RandHelper_bounds [of "hi - lo + 1" g] assms a show ?thesis
    by (simp add: FMath_RandRange_def)
qed

lemma FRand_bounds: "0 \<le> fst (FRand s) \<and> fst (FRand s) < 1"
  by (simp add: FRand_def)

lemma RandHelper_bounds:
  assumes "0 < A"
  shows "0 \<le> fst (RandHelper A s) \<and> fst (RandHelper A s) < A"
proof -
  obtain f s' where a: "FRand s = (f, s')" by fastforce
  have "0 \<le> f" using FRand_bounds [of s] a by simp
  with assms show ?thesis
    by (simp add: RandHelper_def a TruncToInt_def)
qed

lemma RandRange_bounds:
  assumes "lo \<le> hi"
  shows "lo \<le> fst (RandRange lo hi s) \<and> fst (RandRange lo hi s) \<le> hi"
proof -
  obtain r s' where a: "RandHelper (hi - lo + 1) s = (r, s')" by fastforce
  from RandHelper_bounds [of "hi - lo + 1" s] assms a show ?thesis
    by (simp add: RandRange_def)
qed

lemma digits_numeral:
  "digits (numeral n) =
     (if (numeral n :: nat) < 10 then [''0123456789'' ! (numeral n)]
      else digits ((numeral n) div 10) @ [''0123456789'' ! ((numeral n) mod 10)])"
  "digits 0 = ''0''"
  "digits (Suc 0) = ''1''"
  by (simp_all add: digits.simps)


section \<open>Weapon generator: enchantments\<close>

lemma AddEnchantment_fields:
  "Rarity (fst (AddEnchantment G W el g)) = Rarity W"
  "Element (fst (AddEnchantment G W el g)) = Element W"
  by (simp_all add: AddEnchantment_def split: prod.split)

lemma AddEnchantment_length:
  assumes "EnchantmentLibrary G \<noteq> []" and "int (length (Enchantments W)) < MaxEnchantments G"
  shows "length (Enchantments (fst (AddEnchantment G W el g))) = Suc (length (Enchantments W))"
proof -
  let ?n = "int (length (EnchantmentLibrary G))"
  have "0 \<le> ?n - 1" using assms(1) by (cases "EnchantmentLibrary G") simp_all
  from FMath_RandRange_bounds [OF this, of g]
  have "0 \<le> fst (FMath_RandRange 0 (?n - 1) g)" "fst (FMath_RandRange 0 (?n - 1) g) < ?n"
    by simp_all
  moreover obtain k g' where "FMath_RandRange 0 (?n - 1) g = (k, g')" by fastforce
  ultimately show ?thesis using assms(2)
    by (simp add: AddEnchantment_def)
qed

lemma AddEnchantments_loop_Rarity:
  "Rarity (fst (AddEnchantments_loop G N i W g)) = Rarity W"
proof (induction G N i W g rule: AddEnchantments_loop.induct)
  case (1 G N i W g)
  show ?case
  proof (cases "i < N \<and> i < MaxEnchantments G")
    case True
    obtain W' g' where A: "AddEnchantment G W (Element W) g = (W', g')" by fastforce
    have "Rarity W' = Rarity W" using AddEnchantment_fields(1) [of G W "Element W" g] A by simp
    with "1.IH" [OF True A [symmetric]] True A show ?thesis
      by (simp add: AddEnchantments_loop.simps [of G N i W g])
  next
    case False
    then show ?thesis by (subst AddEnchantments_loop.simps) auto
  qed
qed

lemma AddEnchantments_loop_length:
  "EnchantmentLibrary G \<noteq> [] \<Longrightarrow> int (length (Enchantments W)) = i \<Longrightarrow>
   int (length (Enchantments (fst (AddEnchantments_loop G N i W g))))
     = max i (min N (MaxEnchantments G))"
proof (induction G N i W g rule: AddEnchantments_loop.induct)
  case (1 G N i W g)
  show ?case
  proof (cases "i < N \<and> i < MaxEnchantments G")
    case True
    obtain W' g' where A: "AddEnchantment G W (Element W) g = (W', g')" by fastforce
    have "length (Enchantments W') = Suc (length (Enchantments W))"
      using AddEnchantment_length [OF "1.prems"(1), of W "Element W" g] True "1.prems"(2) A
      by simp
    then have "int (length (Enchantments W')) = i + 1" using "1.prems"(2) by simp
    from "1.IH" [OF True A [symmetric] "1.prems"(1) this] True A show ?thesis
      by (simp add: AddEnchantments_loop.simps [of G N i W g])
  next
    case False
    then show ?thesis using "1.prems"(2) by (subst AddEnchantments_loop.simps) auto
  qed
qed

lemma CalculateWeaponStats_fields:
  "Rarity (CalculateWeaponStats W L) = Rarity W"
  "Enchantments (CalculateWeaponStats W L) = Enchantments W"
  by (simp_all add: CalculateWeaponStats_def Let_def split: EWeaponType.split)

lemma NumEnchantments_of_table:
  "NumEnchantments_of r =
     (case r of Legendary \<Rightarrow> 4 | Epic \<Rightarrow> 3 | Rare \<Rightarrow> 2 | Uncommon \<Rightarrow> 1 | Common \<Rightarrow> 0)"
  by (cases r) simp_all

lemma AddEnchantment_empty_library:
  "EnchantmentLibrary G = [] \<Longrightarrow> AddEnchantment G W el g = (W, g)"
  by (simp add: AddEnchantment_def FMath_RandRange_def FMath_RandHelper_def)

lemma AddEnchantments_loop_empty_library:
  "EnchantmentLibrary G = [] \<Longrightarrow> AddEnchantments_loop G N i W g = (W, g)"
proof (induction G N i W g rule: AddEnchantments_loop.induct)
  case (1 G N i W g)
  show ?case
  proof (cases "i < N \<and> i < MaxEnchantments G")
    case True
    have A: "AddEnchantment G W (Element W) g = (W, g)"
      using "1.prems" by (rule AddEnchantment_empty_library)
    from "1.IH" [OF True A [symmetric] "1.prems"] True A show ?thesis
      by (simp add: AddEnchantments_loop.simps [of G N i W g])
  next
    case False
    then show ?thesis by (subst AddEnchantments_loop.simps) auto
  qed
qed

lemma GenerateWeapon_result:
  shows "Rarity (fst (GenerateWeapon G T L g)) = fst (DetermineRarity G (snd (FMath_Rand g)))"
    and "EnchantmentLibrary G \<noteq> [] \<Longrightarrow>
         int (length (Enchantments (fst (GenerateWeapon G T L g)))) =
           max 0 (min (NumEnchantments_of (Rarity (fst (GenerateWeapon G T L g))))
                      (MaxEnchantments G))"
    and "EnchantmentLibrary G = [] \<Longrightarrow> Enchantments (fst (GenerateWeapon G T L g)) = []"
proof -
  obtain n g1 where a: "FMath_Rand g = (n, g1)" by fastforce
  obtain r g2 where b: "DetermineRarity G g1 = (r, g2)" by fastforce
  obtain e g3 where c: "FMath_RandRange 0 7 g2 = (e, g3)" by fastforce
  define W2 where "W2 = CalculateWeaponStats
     ((FWeapon_default\<lparr>WeaponId := Printf_d ''WPN_'' n, Type := T, Rarity := r,
         RequiredLevel := L, Element := EElementalType_of_int e\<rparr>)
        \<lparr>WeaponName := GenerateWeaponName T r (EElementalType_of_int e)\<rparr>) L"
  have R: "Rarity W2 = r" and E: "Enchantments W2 = []"
    by (simp_all add: W2_def CalculateWeaponStats_fields FWeapon_default_def)
  obtain W3 g4 where d: "AddEnchantments_loop G (NumEnchantments_of r) 0 W2 g3 = (W3, g4)"
    by fastforce
  have G: "fst (GenerateWeapon G T L g) = W3\<lparr>GoldValue := CalculateWeaponValue W3\<rparr>"
    using a b c d R by (simp add: GenerateWeapon_def Let_def W2_def [symmetric])
  have R3: "Rarity W3 = r"
    using AddEnchantments_loop_Rarity [of G "NumEnchantments_of r" 0 W2 g3] d R by simp
  then show "Rarity (fst (GenerateWeapon G T L g)) = fst (DetermineRarity G (snd (FMath_Rand g)))"
    using a b by (simp add: G)
  { assume lib: "EnchantmentLibrary G \<noteq> []"
    have "int (length (Enchantments W3)) = max 0 (min (NumEnchantments_of r) (MaxEnchantments G))"
      using AddEnchantments_loop_length [OF lib, of W2 0 "NumEnchantments_of r" g3] d E by simp
    with R3 show "int (length (Enchantments (fst (GenerateWeapon G T L g)))) =
             max 0 (min (NumEnchantments_of (Rarity (fst (GenerateWeapon G T L g))))
                        (MaxEnchantments G))"
      by (simp add: G) }
  { assume lib: "EnchantmentLibrary G = []"
    have "W3 = W2"
      using AddEnchantments_loop_empty_library [OF lib, of "NumEnchantments_of r" 0 W2 g3] d
      by simp
    with E show "Enchantments (fst (GenerateWeapon G T L g)) = []" by (simp add: G) }
qed

lemma BeginPlay_fields:
  "EnchantmentLibrary (BeginPlay G) \<noteq> []"
  "MaxEnchantments (BeginPlay G) = MaxEnchantments G"
  "LegendaryChance (BeginPlay G) = LegendaryChance G"
  "EpicChance (BeginPlay G) = EpicChance G"
  "RareChance (BeginPlay G) = RareChance G"
  by (simp_all add: BeginPlay_def InitializeEnchantmentLibrary_def)

lemma Legendary_at_zero:
  "LegendaryChance G = 1 / 100 \<Longrightarrow>
   Rarity (fst (GenerateWeapon G T L (\<lambda>k. 0))) = Legendary"
  by (simp add: GenerateWeapon_result(1) DetermineRarity_def FMath_FRand_def FMath_Rand_def
      advance_def)

text \<open>
  Claim C8, as the code has it. Once \<open>BeginPlay\<close> has filled the enchantment library, the
  weapon returned by \<open>GenerateWeapon\<close> carries exactly
  \<open>max 0 (min (count of its rarity) MaxEnchantments)\<close> enchantments, the count being
  Legendary 4, Epic 3, Rare 2, Uncommon 1, Common 0; for a cap \<open>MaxEnchantments\<close> that is not
  negative this is \<open>min (count of its rarity) MaxEnchantments\<close> and never more than the cap.
  While the library is still empty the returned weapon carries no enchantment.
\<close>

theorem GenerateWeapon_enchantment_count:
  "(let W = fst (GenerateWeapon (BeginPlay G) T L g);
        count = (case Rarity W of
                   Legendary \<Rightarrow> 4 | Epic \<Rightarrow> 3 | Rare \<Rightarrow> 2 | Uncommon \<Rightarrow> 1 | Common \<Rightarrow> 0)
    in int (length (Enchantments W)) = max 0 (min count (MaxEnchantments G))
     \<and> (0 \<le> MaxEnchantments G \<longrightarrow>
          int (length (Enchantments W)) = min count (MaxEnchantments G)
          \<and> int (length (Enchantments W)) \<le> MaxEnchantments G))
   \<and> (EnchantmentLibrary G = [] \<longrightarrow> Enchantments (fst (GenerateWeapon G T L g)) = [])"
proof -
  have "0 \<le> NumEnchantments_of r" for r by (cases r) simp_all
  then show ?thesis
    using GenerateWeapon_result(2) [OF BeginPlay_fields(1), of G T L g]
          GenerateWeapon_result(3) [of G T L g]
    by (simp add: Let_def BeginPlay_fields(2) NumEnchantments_of_table [symmetric]
        min_def max_def)
qed

theorem GenerateWeapon_enchantment_count_witness:
  "0 \<le> MaxEnchantments AProceduralWeaponGenerator_default
   \<and> EnchantmentLibrary AProceduralWeaponGenerator_default = []
   \<and> Rarity (fst (GenerateWeapon (BeginPlay AProceduralWeaponGenerator_default) Sword 1
                    (\<lambda>k. 0))) = Legendary
   \<and> length (Enchantments (fst (GenerateWeapon (BeginPlay AProceduralWeaponGenerator_default)
                                   Sword 1 (\<lambda>k. 0)))) = 3
   \<and> Enchantments (fst (GenerateWeapon AProceduralWeaponGenerator_default Sword 1 (\<lambda>k. 0)))
       = []"
proof -
  have r: "Rarity (fst (GenerateWeapon (BeginPlay AProceduralWeaponGenerator_default) Sword 1
                          (\<lambda>k. 0))) = Legendary"
    by (rule Legendary_at_zero)
       (simp add: BeginPlay_fields AProceduralWeaponGenerator_default_def)
  have m: "0 \<le> MaxEnchantments AProceduralWeaponGenerator_default"
    and e: "EnchantmentLibrary AProceduralWeaponGenerator_default = []"
    by (simp_all add: AProceduralWeaponGenerator_default_def)
  from GenerateWeapon_enchantment_count
         [of AProceduralWeaponGenerator_default Sword 1 "\<lambda>k. 0"] r m e
  show ?thesis by (simp add: Let_def AProceduralWeaponGenerator_default_def)
qed

text \<open>
  The claim as it is worded fails in two ways. With a cap of \<open>-1\<close> a legendary weapon is
  returned with no enchantment: that is more than the cap and not \<open>min 4 (-1)\<close>. And before
  \<open>BeginPlay\<close>, with the default cap of three, a legendary weapon is returned with no
  enchantment: that is not \<open>min 4 3\<close>.
\<close>

theorem GenerateWeapon_enchantment_count_counterexample:
  "Rarity (fst (GenerateWeapon (BeginPlay negative_cap) Sword 1 (\<lambda>k. 0))) = Legendary
   \<and> MaxEnchantments (BeginPlay negative_cap) = - 1
   \<and> Enchantments (fst (GenerateWeapon (BeginPlay negative_cap) Sword 1 (\<lambda>k. 0))) = []
   \<and> int (length (Enchantments (fst (GenerateWeapon (BeginPlay negative_cap) Sword 1 (\<lambda>k. 0)))))
       \<noteq> min 4 (MaxEnchantments (BeginPlay negative_cap))
   \<and> \<not> int (length (Enchantments (fst (GenerateWeapon (BeginPlay negative_cap) Sword 1
                                         (\<lambda>k. 0)))))
         \<le> MaxEnchantments (BeginPlay negative_cap)
   \<and> Rarity (fst (GenerateWeapon AProceduralWeaponGenerator_default Sword 1 (\<lambda>k. 0)))
       = Legendary
   \<and> MaxEnchantments AProceduralWeaponGenerator_default = 3
   \<and> Enchantments (fst (GenerateWeapon AProceduralWeaponGenerator_default Sword 1 (\<lambda>k. 0)))
       = []
   \<and> int (length (Enchantments (fst (GenerateWeapon AProceduralWeaponGenerator_default Sword 1
                                       (\<lambda>k. 0)))))
       \<noteq> min 4 (MaxEnchantments AProceduralWeaponGenerator_default)"
proof -
  have r1: "Rarity (fst (GenerateWeapon (BeginPlay negative_cap) Sword 1 (\<lambda>k. 0))) = Legendary"
    by (rule Legendary_at_zero)
       (simp add: BeginPlay_fields negative_cap_def AProceduralWeaponGenerator_default_def)
  have r2: "Rarity (fst (GenerateWeapon AProceduralWeaponGenerator_default Sword 1 (\<lambda>k. 0)))
              = Legendary"
    by (rule Legendary_at_zero) (simp add: AProceduralWeaponGenerator_default_def)
  have m1: "MaxEnchantments (BeginPlay negative_cap) = - 1"
    by (simp add: BeginPlay_fields negative_cap_def)
  have m2: "MaxEnchantments AProceduralWeaponGenerator_default = 3"
    by (simp add: AProceduralWeaponGenerator_default_def)
  have "int (length (Enchantments (fst (GenerateWeapon (BeginPlay negative_cap) Sword 1
                                          (\<lambda>k. 0))))) = 0"
    using GenerateWeapon_result(2) [OF BeginPlay_fields(1), of negative_cap Sword 1 "\<lambda>k. 0"]
    by (simp add: r1 m1)
  then have e1: "Enchantments (fst (GenerateWeapon (BeginPlay negative_cap) Sword 1 (\<lambda>k. 0)))
                   = []"
    by simp
  have e2: "Enchantments (fst (GenerateWeapon AProceduralWeaponGenerator_default Sword 1
                                 (\<lambda>k. 0))) = []"
    by (rule GenerateWeapon_result(3)) (simp add: AProceduralWeaponGenerator_default_def)
  show ?thesis by (simp add: r1 r2 m1 m2 e1 e2)
qed

text \<open>
  Claim C10. \<open>AddEnchantment\<close> on a weapon whose enchantment list already has at least
  \<open>MaxEnchantments\<close> entries returns the weapon as it was, every field included, and draws
  nothing from the process-wide generator.
\<close>

theorem AddEnchantment_at_cap_unchanged:
  "MaxEnchantments G \<le> int (length (Enchantments W)) \<Longrightarrow> AddEnchantment G W el g = (W, g)"
  by (simp add: AddEnchantment_def)

theorem AddEnchantment_at_cap_unchanged_witness:
  "MaxEnchantments AProceduralWeaponGenerator_default
     \<le> int (length (Enchantments (FWeapon_default\<lparr>Enchantments := [''Wise'', ''Swift'', ''Mighty'']\<rparr>)))
   \<and> AddEnchantment (BeginPlay AProceduralWeaponGenerator_default)
        (FWeapon_default\<lparr>Enchantments := [''Wise'', ''Swift'', ''Mighty'']\<rparr>) Fire (\<lambda>k. 0)
      = (FWeapon_default\<lparr>Enchantments := [''Wise'', ''Swift'', ''Mighty'']\<rparr>, \<lambda>k. 0)"
  using AddEnchantment_at_cap_unchanged
          [of "BeginPlay AProceduralWeaponGenerator_default"
              "FWeapon_default\<lparr>Enchantments := [''Wise'', ''Swift'', ''Mighty'']\<rparr>"
              Fire "\<lambda>k. 0"]
  by (simp add: BeginPlay_fields AProceduralWeaponGenerator_default_def)


section \<open>Weapon generator: names and rarity\<close>

text \<open>
  Claim C5. The name of a legendary fire sword is \<open>Legendary Flaming Sword\<close>. For a common
  pure dagger the empty rarity prefix collapses, but the separator after the empty element
  adjective stays: the name is \<open>Dagger\<close> preceded by one blank, not \<open>Dagger\<close>.
\<close>

theorem GenerateWeaponName_examples:
  "GenerateWeaponName Sword Legendary Fire = ''Legendary Flaming Sword''
   \<and> GenerateWeaponName Dagger Common Pure = '' Dagger''
   \<and> GenerateWeaponName Dagger Common Pure \<noteq> ''Dagger''"
  by (simp add: GenerateWeaponName_def)

text \<open>
  Claim C6. \<open>DetermineRarity\<close> consumes one draw \<open>r\<close> of the process-wide generator and checks
  the thresholds in the order Legendary, Epic, Rare, Uncommon: the result is Legendary exactly
  when \<open>r < p_legendary\<close>; Epic exactly when that fails and \<open>r < p_legendary + p_epic\<close>; Rare
  exactly when both fail and \<open>r < p_legendary + p_epic + p_rare\<close>; Uncommon exactly when all
  three fail and \<open>r < 0.4\<close>; Common exactly when all four fail.
\<close>

theorem DetermineRarity_bands:
  "(let r = fst (FMath_FRand g); t = fst (DetermineRarity G g);
        pl = LegendaryChance G; pe = EpicChance G; pr = RareChance G
    in (t = Legendary \<longleftrightarrow> r < pl)
     \<and> (t = Epic \<longleftrightarrow> pl \<le> r \<and> r < pl + pe)
     \<and> (t = Rare \<longleftrightarrow> pl \<le> r \<and> pl + pe \<le> r \<and> r < pl + pe + pr)
     \<and> (t = Uncommon \<longleftrightarrow> pl \<le> r \<and> pl + pe \<le> r \<and> pl + pe + pr \<le> r \<and> r < 4 / 10)
     \<and> (t = Common \<longleftrightarrow> pl \<le> r \<and> pl + pe \<le> r \<and> pl + pe + pr \<le> r \<and> 4 / 10 \<le> r))
   \<and> snd (DetermineRarity G g) = snd (FMath_FRand g)"
  by (simp add: DetermineRarity_def Let_def split: prod.split)

theorem DetermineRarity_bands_witness:
  "fst (FMath_FRand (\<lambda>k. 3277)) = 3277 / 32767
   \<and> fst (DetermineRarity AProceduralWeaponGenerator_default (\<lambda>k. 3277)) = Rare"
  using DetermineRarity_bands [of "\<lambda>k. 3277" AProceduralWeaponGenerator_default]
  by (simp add: Let_def FMath_FRand_def FMath_Rand_def RAND_MAX_def
      AProceduralWeaponGenerator_default_def)


section \<open>City generator: where the buildings of a district stand\<close>

lemma Location_depends:
  "Center D = Center D' \<Longrightarrow> Radius D = Radius D' \<Longrightarrow>
   GenerateRandomLocationInDistrict E C D = GenerateRandomLocationInDistrict E C D'"
  by (simp add: GenerateRandomLocationInDistrict_def)

lemma FRandRange_lower:
  assumes "lo \<le> hi"
  shows "lo \<le> fst (FRandRange lo hi s)"
proof -
  obtain f s' where a: "FRand s = (f, s')" by fastforce
  have "0 \<le> f" using FRand_bounds [of s] a by simp
  with assms have "0 \<le> (hi - lo) * f" by simp
  then show ?thesis by (simp add: FRandRange_def a)
qed

lemma Building_shape_fields:
  "Location (Building_shape lo hi zlo zhi fl m B s) = Location B"
  "0 < lo \<Longrightarrow> lo \<le> hi \<Longrightarrow> 0 < vX (Size (Building_shape lo hi zlo zhi fl m B s))"
  "0 < lo \<Longrightarrow> lo \<le> hi \<Longrightarrow> 0 < vY (Size (Building_shape lo hi zlo zhi fl m B s))"
proof -
  obtain x s1 where a: "FRandRange lo hi s = (x, s1)" by fastforce
  obtain y s2 where b: "FRandRange lo hi s1 = (y, s2)" by fastforce
  obtain z s3 where c: "FRandRange zlo zhi s2 = (z, s3)" by fastforce
  obtain f s4 where d: "fl s3 = (f, s4)" by fastforce
  show "Location (Building_shape lo hi zlo zhi fl m B s) = Location B"
    by (simp add: Building_shape_def a b c d)
  { assume h: "0 < lo" "lo \<le> hi"
    have "lo \<le> x" "lo \<le> y" using FRandRange_lower [OF h(2), of s] FRandRange_lower [OF h(2), of s1] a b by simp_all
    with h(1) show "0 < vX (Size (Building_shape lo hi zlo zhi fl m B s))"
      "0 < vY (Size (Building_shape lo hi zlo zhi fl m B s))"
      by (simp_all add: Building_shape_def a b c d) }
qed

lemma GenerateBuilding_fields:
  "Location (GenerateBuilding E C T L i) = L"
  "0 < vX (Size (GenerateBuilding E C T L i))"
  "0 < vY (Size (GenerateBuilding E C T L i))"
proof -
  obtain n s1 where a: "RandRange 10000 99999 (E (AProceduralCityGenerator.RandomSeed C + i * 100)) = (n, s1)" by fastforce
  obtain f s2 where b: "FRand s1 = (f, s2)" by fastforce
  obtain p s3 where c: "RandRange 10 500 s2 = (p, s3)" by fastforce
  show "Location (GenerateBuilding E C T L i) = L"
    by (cases T) (simp_all add: GenerateBuilding_def a b c Building_shape_fields(1))
  show "0 < vX (Size (GenerateBuilding E C T L i))"
    by (cases T) (simp_all add: GenerateBuilding_def a b c Building_shape_fields(2))
  show "0 < vY (Size (GenerateBuilding E C T L i))"
    by (cases T) (simp_all add: GenerateBuilding_def a b c Building_shape_fields(3))
qed

lemma PopulateDistrict_loop_inv:
  "\<exists>new. fst (PopulateDistrict_loop E C i j D s) = D\<lparr>Buildings := Buildings D @ new\<rparr>
     \<and> (\<forall>B\<in>set new. placed_at (GenerateRandomLocationInDistrict E C D) B)
     \<and> (1 \<le> BuildingDensity C \<longrightarrow> int (length new) = max 0 (BuildingsPerDistrict C - j))"
proof (induction E C i j D s rule: PopulateDistrict_loop.induct)
  case (1 E C i j D s)
  show ?case
  proof (cases "j < BuildingsPerDistrict C")
    case False
    then have "fst (PopulateDistrict_loop E C i j D s) = D\<lparr>Buildings := Buildings D @ []\<rparr>"
      by (subst PopulateDistrict_loop.simps) simp
    with False show ?thesis by (intro exI [of _ "[]"]) simp
  next
    case True
    obtain f s1 where a: "FRand s = (f, s1)" by fastforce
    show ?thesis
    proof (cases "f > BuildingDensity C")
      case skip: True
      have f1: "f < 1" using FRand_bounds [of s] a by simp
      have eq: "PopulateDistrict_loop E C i j D s = PopulateDistrict_loop E C i (j + 1) D s1"
        using True a skip by (subst PopulateDistrict_loop.simps) simp
      from "1.IH"(1) [OF True a [symmetric] skip] obtain new where
        n: "fst (PopulateDistrict_loop E C i (j + 1) D s1) = D\<lparr>Buildings := Buildings D @ new\<rparr>"
           "\<forall>B\<in>set new. placed_at (GenerateRandomLocationInDistrict E C D) B" by blast
      show ?thesis using n skip f1 by (intro exI [of _ new]) (simp add: eq)
    next
      case keep: False
      define loc where "loc = GenerateRandomLocationInDistrict E C D"
      obtain T s2 where b: "BuildingType_for D s1 = (T, s2)" by fastforce
      define Bd where "Bd = GenerateBuilding E C T loc i"
      define D' where "D' = D\<lparr>Buildings := Buildings D @ [Bd]\<rparr>"
      have eq: "PopulateDistrict_loop E C i j D s = PopulateDistrict_loop E C i (j + 1) D' s2"
        using True a keep b
        by (subst PopulateDistrict_loop.simps) (simp add: Let_def loc_def Bd_def D'_def)
      have loc': "GenerateRandomLocationInDistrict E C D' = loc"
        unfolding loc_def by (rule Location_depends) (simp_all add: D'_def)
      from "1.IH"(2) [OF True a [symmetric] keep loc_def b [symmetric] Bd_def, folded D'_def]
      obtain new where
        n: "fst (PopulateDistrict_loop E C i (j + 1) D' s2) = D'\<lparr>Buildings := Buildings D' @ new\<rparr>"
           "\<forall>B\<in>set new. placed_at loc B"
           "1 \<le> BuildingDensity C \<longrightarrow> int (length new) = max 0 (BuildingsPerDistrict C - (j + 1))"
        unfolding loc' by blast
      have "placed_at loc Bd" by (simp add: placed_at_def Bd_def GenerateBuilding_fields)
      with n True show ?thesis
        by (intro exI [of _ "Bd # new"]) (auto simp add: eq D'_def loc_def)
    qed
  qed
qed

lemma PopulateDistricts_loop_length:
  "length (fst (PopulateDistricts_loop E C i ds s)) = length ds"
proof (induction E C i ds s rule: PopulateDistricts_loop.induct)
  case (1 E C i ds s)
  show ?case
  proof (cases "i < length ds")
    case True
    obtain D' s' where a: "PopulateDistrict_loop E C (int i) 0 (ds ! i) s = (D', s')" by fastforce
    from "1.IH" [OF True a [symmetric]] True a show ?thesis
      by (subst PopulateDistricts_loop.simps) simp
  next
    case False
    then show ?thesis by (subst PopulateDistricts_loop.simps) simp
  qed
qed

lemma PopulateDistricts_loop_before:
  "k < i \<Longrightarrow> fst (PopulateDistricts_loop E C i ds s) ! k = ds ! k"
proof (induction E C i ds s rule: PopulateDistricts_loop.induct)
  case (1 E C i ds s)
  show ?case
  proof (cases "i < length ds")
    case True
    obtain D' s' where a: "PopulateDistrict_loop E C (int i) 0 (ds ! i) s = (D', s')" by fastforce
    from "1.IH" [OF True a [symmetric]] "1.prems" True a show ?thesis
      by (subst PopulateDistricts_loop.simps) simp
  next
    case False
    then show ?thesis by (subst PopulateDistricts_loop.simps) simp
  qed
qed

lemma PopulateDistricts_loop_nth:
  "i \<le> k \<Longrightarrow> k < length ds \<Longrightarrow>
   \<exists>s'. fst (PopulateDistricts_loop E C i ds s) ! k = fst (PopulateDistrict_loop E C (int k) 0 (ds ! k) s')"
proof (induction E C i ds s rule: PopulateDistricts_loop.induct)
  case (1 E C i ds s)
  from "1.prems" have True: "i < length ds" by simp
  obtain D' s' where a: "PopulateDistrict_loop E C (int i) 0 (ds ! i) s = (D', s')" by fastforce
  have eq: "PopulateDistricts_loop E C i ds s = PopulateDistricts_loop E C (i + 1) (ds[i := D']) s'"
    using True a by (subst PopulateDistricts_loop.simps) simp
  show ?case
  proof (cases "k = i")
    case True
    then have "fst (PopulateDistricts_loop E C (i + 1) (ds[i := D']) s') ! k = D'"
      using PopulateDistricts_loop_before [of k "i + 1" E C "ds[i := D']" s'] \<open>i < length ds\<close> by simp
    then show ?thesis using a True by (intro exI [of _ s]) (simp add: eq)
  next
    case False
    with "1.prems" have "i + 1 \<le> k" "k < length (ds[i := D'])" by simp_all
    from "1.IH" [OF True a [symmetric] this] False show ?thesis by (simp add: eq)
  qed
qed

text \<open>
  Claim C9. \<open>PopulateDistricts\<close> only appends to the buildings of a district, and every
  building it appends to district \<open>i\<close> stands at the one point that
  \<open>GenerateRandomLocationInDistrict\<close> returns for that district: the location stream is
  created afresh from \<open>RandomSeed + 3\<close> on every call, so every call for the district returns
  the same point.
\<close>

theorem PopulateDistricts_one_location:
  "i < length (Districts C) \<Longrightarrow>
   \<exists>new. Buildings (Districts (PopulateDistricts E C) ! i) = Buildings (Districts C ! i) @ new
     \<and> (\<forall>B\<in>set new. Location B = GenerateRandomLocationInDistrict E C (Districts C ! i))"
proof -
  assume h: "i < length (Districts C)"
  from PopulateDistricts_loop_nth [of 0 i "Districts C" E C "E (AProceduralCityGenerator.RandomSeed C + 2)"] h
  obtain s' where s: "Districts (PopulateDistricts E C) ! i = fst (PopulateDistrict_loop E C (int i) 0 (Districts C ! i) s')"
    by (auto simp add: PopulateDistricts_def)
  from PopulateDistrict_loop_inv [of E C "int i" 0 "Districts C ! i" s']
  show ?thesis unfolding s by (auto simp add: placed_at_def)
qed


section \<open>City generator: districts, roads and buildings of a whole run\<close>

lemma CreateDistrict_length: "length (CreateDistrict ds i) = length ds"
  by (simp add: CreateDistrict_def)

lemma CreateDistrict_empty:
  "\<forall>D\<in>set ds. Buildings D = [] \<Longrightarrow> \<forall>D\<in>set (CreateDistrict ds i). Buildings D = []"
  by (auto simp add: CreateDistrict_def dest!: set_update_subset_insert [THEN subsetD])

lemma GenerateDistricts_loop_step:
  assumes "i < NumberOfDistricts C"
  shows "\<exists>D s'. Buildings D = [] \<and>
     GenerateDistricts_loop C i s ds = GenerateDistricts_loop C (i + 1) s' (CreateDistrict ds i @ [D])"
proof -
  obtain n s' where a: "RandRange 0 3 s = (n, s')" by fastforce
  define D where "D = (District_layout C i)\<lparr>DistrictType :=
      DistrictType_of_choice n (DistrictType (District_layout C i))\<rparr>"
  have "Buildings (District_layout C i) = []"
    by (simp add: District_layout_def Let_def FDistrict_default_def)
  then have e: "Buildings D = []" by (simp add: D_def)
  have "GenerateDistricts_loop C i s ds
          = GenerateDistricts_loop C (i + 1) s' (CreateDistrict ds i @ [D])"
    using assms a by (subst GenerateDistricts_loop.simps) (simp add: Let_def D_def)
  with e show ?thesis by blast
qed

lemma GenerateDistricts_loop_length:
  "length (GenerateDistricts_loop C i s ds) = length ds + nat (NumberOfDistricts C - i)"
proof (induction "nat (NumberOfDistricts C - i)" arbitrary: i s ds)
  case 0
  then have "\<not> i < NumberOfDistricts C" by simp
  then show ?case by (subst GenerateDistricts_loop.simps) simp
next
  case (Suc n)
  then have lt: "i < NumberOfDistricts C" by simp
  from GenerateDistricts_loop_step [OF lt, of s ds] obtain D s' where
    eq: "GenerateDistricts_loop C i s ds = GenerateDistricts_loop C (i + 1) s' (CreateDistrict ds i @ [D])"
    by blast
  from Suc(2) have "n = nat (NumberOfDistricts C - (i + 1))" by simp
  from Suc(1) [OF this, of s' "CreateDistrict ds i @ [D]"] lt show ?case
    by (simp add: eq CreateDistrict_length)
qed

lemma GenerateDistricts_loop_empty:
  "\<forall>D\<in>set ds. Buildings D = [] \<Longrightarrow> \<forall>D\<in>set (GenerateDistricts_loop C i s ds). Buildings D = []"
proof (induction "nat (NumberOfDistricts C - i)" arbitrary: i s ds)
  case 0
  then have "\<not> i < NumberOfDistricts C" by simp
  then have "GenerateDistricts_loop C i s ds = ds" by (subst GenerateDistricts_loop.simps) simp
  with 0(2) show ?case by simp
next
  case (Suc n)
  then have lt: "i < NumberOfDistricts C" by simp
  from GenerateDistricts_loop_step [OF lt, of s ds] obtain D s' where e: "Buildings D = []" and
    eq: "GenerateDistricts_loop C i s ds = GenerateDistricts_loop C (i + 1) s' (CreateDistrict ds i @ [D])"
    by blast
  from Suc(2) have n: "n = nat (NumberOfDistricts C - (i + 1))" by simp
  have "\<forall>D\<in>set (CreateDistrict ds i @ [D]). Buildings D = []"
    using CreateDistrict_empty [OF Suc(3), of i] e by simp
  from Suc(1) [OF n this] show ?case by (simp only: eq)
qed

lemma ClearCity_fields:
  "Districts (ClearCity C) = []"
  "NumberOfDistricts (ClearCity C) = NumberOfDistricts C"
  "BuildingsPerDistrict (ClearCity C) = BuildingsPerDistrict C"
  "BuildingDensity (ClearCity C) = BuildingDensity C"
  "AProceduralCityGenerator.RandomSeed (ClearCity C) = AProceduralCityGenerator.RandomSeed C"
  by (simp_all add: ClearCity_def)

lemma GenerateDistricts_fields:
  "Districts (GenerateDistricts E C)
     = GenerateDistricts_loop C 0 (E (AProceduralCityGenerator.RandomSeed C)) []"
  "NumberOfDistricts (GenerateDistricts E C) = NumberOfDistricts C"
  "BuildingsPerDistrict (GenerateDistricts E C) = BuildingsPerDistrict C"
  "BuildingDensity (GenerateDistricts E C) = BuildingDensity C"
  "AProceduralCityGenerator.RandomSeed (GenerateDistricts E C) = AProceduralCityGenerator.RandomSeed C"
  by (simp_all add: GenerateDistricts_def)

lemma GenerateRoadNetwork_fields:
  "Districts (GenerateRoadNetwork C) = Districts C"
  "RoadNetwork (GenerateRoadNetwork C)
     = concat (map (Roads_of_district C) [0 ..< length (Districts C)])"
  "NumberOfDistricts (GenerateRoadNetwork C) = NumberOfDistricts C"
  "BuildingsPerDistrict (GenerateRoadNetwork C) = BuildingsPerDistrict C"
  "BuildingDensity (GenerateRoadNetwork C) = BuildingDensity C"
  "AProceduralCityGenerator.RandomSeed (GenerateRoadNetwork C) = AProceduralCityGenerator.RandomSeed C"
  by (simp_all add: GenerateRoadNetwork_def)

lemma PopulateDistricts_fields:
  "Districts (PopulateDistricts E C)
     = fst (PopulateDistricts_loop E C 0 (Districts C) (E (AProceduralCityGenerator.RandomSeed C + 2)))"
  "RoadNetwork (PopulateDistricts E C) = RoadNetwork C"
  by (simp_all add: PopulateDistricts_def)

lemma GenerateDistricts_ClearCity:
  "length (Districts (GenerateDistricts E (ClearCity C))) = nat (NumberOfDistricts C)"
  "\<forall>D\<in>set (Districts (GenerateDistricts E (ClearCity C))). Buildings D = []"
  using GenerateDistricts_loop_length
          [of "ClearCity C" 0 "E (AProceduralCityGenerator.RandomSeed (ClearCity C))" "[]"]
        GenerateDistricts_loop_empty
          [of "[]" "ClearCity C" 0 "E (AProceduralCityGenerator.RandomSeed (ClearCity C))"]
  by (simp_all add: GenerateDistricts_fields(1) ClearCity_fields(2))

lemma length_Roads: "length (concat (map (Roads_of_district X) [0 ..< n])) = 2 * n"
  by (induction n) (simp_all add: Roads_of_district_def Let_def)

lemma GenerateCity_lengths:
  "length (Districts (GenerateCity E C)) = nat (NumberOfDistricts C)"
  "length (RoadNetwork (GenerateCity E C)) = 2 * nat (NumberOfDistricts C)"
  by (simp_all add: GenerateCity_def PopulateDistricts_fields PopulateDistricts_loop_length
      GenerateRoadNetwork_fields(1,2) length_Roads GenerateDistricts_ClearCity(1))

lemma GenerateCity_district:
  assumes "k < nat (NumberOfDistricts C)"
  shows "\<exists>p. (\<forall>B\<in>set (Buildings (Districts (GenerateCity E C) ! k)). placed_at p B)
     \<and> (1 \<le> BuildingDensity C \<longrightarrow>
          int (length (Buildings (Districts (GenerateCity E C) ! k))) = max 0 (BuildingsPerDistrict C))"
proof -
  define C3 where "C3 = GenerateRoadNetwork (GenerateDistricts E (ClearCity C))"
  define ds where "ds = Districts C3"
  have f: "BuildingDensity C3 = BuildingDensity C" "BuildingsPerDistrict C3 = BuildingsPerDistrict C"
    by (simp_all add: C3_def GenerateRoadNetwork_fields GenerateDistricts_fields ClearCity_fields)
  have d: "length ds = nat (NumberOfDistricts C)" "\<forall>D\<in>set ds. Buildings D = []"
    using GenerateDistricts_ClearCity [of E C]
    by (simp_all add: ds_def C3_def GenerateRoadNetwork_fields(1))
  from assms d(1) have k: "k < length ds" by simp
  with d(2) have e: "Buildings (ds ! k) = []" by simp
  have "Districts (GenerateCity E C)
          = fst (PopulateDistricts_loop E C3 0 ds (E (AProceduralCityGenerator.RandomSeed C3 + 2)))"
    by (simp add: GenerateCity_def PopulateDistricts_fields(1) C3_def ds_def)
  with PopulateDistricts_loop_nth [of 0 k ds E C3 "E (AProceduralCityGenerator.RandomSeed C3 + 2)"] k
  obtain s' where
    s: "Districts (GenerateCity E C) ! k = fst (PopulateDistrict_loop E C3 (int k) 0 (ds ! k) s')"
    by auto
  from PopulateDistrict_loop_inv [of E C3 "int k" 0 "ds ! k" s'] e f
  show ?thesis unfolding s
    by (intro exI [of _ "GenerateRandomLocationInDistrict E C3 (ds ! k)"]) auto
qed

lemma laid_out_city_district:
  "Districts laid_out_city =
     [FDistrict_default\<lparr>DistrictName := ''District_0'', Center := \<lparr>vX = 3000, vY = 0, vZ = 0\<rparr>,
        Radius := 10000, FDistrict.Population := 100000, DistrictType := ''residential''\<rparr>]"
  by (simp add: laid_out_city_def two_building_city_def AProceduralCityGenerator_default_def
      GenerateRoadNetwork_fields GenerateDistricts_fields ClearCity_def GenerateDistricts_loop.simps
      zero_engine_def RandRange_def FRand_def RandHelper_def TruncToInt_def advance_def
      CreateDistrict_def District_layout_def DistrictType_of_choice_def Let_def
      DegreesToRadians_def FVector_add_def FVector_zero_def Printf_d_def digits_numeral cdiv_def)

lemma laid_out_city_location:
  "GenerateRandomLocationInDistrict zero_engine laid_out_city (Districts laid_out_city ! 0)
     = \<lparr>vX = 3000, vY = 0, vZ = 0\<rparr>"
  by (simp add: laid_out_city_district)
     (simp add: GenerateRandomLocationInDistrict_def zero_engine_def FRand_def advance_def
        DegreesToRadians_def FVector_add_def FDistrict_default_def Let_def)

theorem PopulateDistricts_one_location_witness:
  "0 < length (Districts laid_out_city)
   \<and> length (Buildings (Districts (PopulateDistricts zero_engine laid_out_city) ! 0)) = 2
   \<and> Location (Buildings (Districts (PopulateDistricts zero_engine laid_out_city) ! 0) ! 0)
       = \<lparr>vX = 3000, vY = 0, vZ = 0\<rparr>
   \<and> Location (Buildings (Districts (PopulateDistricts zero_engine laid_out_city) ! 0) ! 1)
       = \<lparr>vX = 3000, vY = 0, vZ = 0\<rparr>"
proof -
  define bs where "bs = Buildings (Districts (PopulateDistricts zero_engine laid_out_city) ! 0)"
  have l: "0 < length (Districts laid_out_city)" by (simp add: laid_out_city_district)
  have e: "Buildings (Districts laid_out_city ! 0) = []"
    by (simp add: laid_out_city_district FDistrict_default_def)
  have "PopulateDistricts zero_engine laid_out_city = GenerateCity zero_engine two_building_city"
    by (simp add: GenerateCity_def laid_out_city_def)
  with GenerateCity_district [of 0 two_building_city zero_engine]
  have n: "length bs = 2"
    by (simp add: bs_def two_building_city_def AProceduralCityGenerator_default_def)
  from PopulateDistricts_one_location [OF l, of zero_engine] e obtain new where
    "bs = new" "\<forall>B\<in>set new. Location B = \<lparr>vX = 3000, vY = 0, vZ = 0\<rparr>"
    unfolding bs_def laid_out_city_location by auto
  with n have "Location (bs ! 0) = \<lparr>vX = 3000, vY = 0, vZ = 0\<rparr>"
    "Location (bs ! 1) = \<lparr>vX = 3000, vY = 0, vZ = 0\<rparr>" by simp_all
  with l n show ?thesis unfolding bs_def by simp
qed

text \<open>
  Claim C7, as the code has it. No option is checked and no error is reported: whatever the
  configuration, \<open>GenerateCity\<close> runs through and leaves \<open>max 0 NumberOfDistricts\<close> districts
  and twice as many roads, so a configuration outside its domain yields no district and no
  road only when its district count is not positive; and \<open>DetermineRarity\<close> still returns a
  tier when the three chances add up to \<open>0.4\<close> or more, only never Uncommon.
\<close>

theorem GenerateCity_no_validation:
  "length (Districts (GenerateCity E C)) = nat (NumberOfDistricts C)
   \<and> length (RoadNetwork (GenerateCity E C)) = 2 * nat (NumberOfDistricts C)
   \<and> (4 / 10 \<le> LegendaryChance G + EpicChance G + RareChance G
        \<longrightarrow> fst (DetermineRarity G g) \<noteq> Uncommon)"
  by (simp add: GenerateCity_lengths DetermineRarity_def split: prod.split)

theorem GenerateCity_no_validation_witness:
  "4 / 10 \<le> LegendaryChance malformed_bands + EpicChance malformed_bands
              + RareChance malformed_bands
   \<and> fst (DetermineRarity malformed_bands (\<lambda>k. 0)) \<noteq> Uncommon
   \<and> length (Districts (GenerateCity zero_engine invalid_city)) = 1
   \<and> length (RoadNetwork (GenerateCity zero_engine invalid_city)) = 2"
  using GenerateCity_no_validation [of zero_engine invalid_city malformed_bands "\<lambda>k. 0"]
  by (simp add: malformed_bands_def AProceduralWeaponGenerator_default_def invalid_city_def
      AProceduralCityGenerator_default_def)

text \<open>
  The claim as it is worded fails: \<open>invalid_city\<close> lies outside the domain (radius zero,
  density two), and its run still yields a district, two roads and a building.
\<close>

theorem GenerateCity_invalid_configuration_counterexample:
  "\<not> valid_city_configuration invalid_city
   \<and> length (Districts (GenerateCity zero_engine invalid_city)) = 1
   \<and> length (RoadNetwork (GenerateCity zero_engine invalid_city)) = 2
   \<and> length (Buildings (Districts (GenerateCity zero_engine invalid_city) ! 0)) = 1"
  using GenerateCity_district [of 0 invalid_city zero_engine]
  by (simp add: GenerateCity_lengths valid_city_configuration_def invalid_city_def
      AProceduralCityGenerator_default_def)

text \<open>
  Claim C2. The run of a valid configuration with one district, two buildings per district and
  density one, for any engine, seed and radius: both attempts are kept, the two buildings stand
  at the same point, so the distance of their centres is zero and below the sum of their half
  footprints; and the generator's own check, asked about the second building with only the
  first one placed, answers no.
\<close>

theorem GenerateCity_buildings_overlap:
  "(let C' = GenerateCity E (C\<lparr>NumberOfDistricts := 1, BuildingsPerDistrict := 2,
                                BuildingDensity := 1\<rparr>);
        bs = Buildings (Districts C' ! 0);
        half = (\<lambda>B. max (vX (Size B)) (vY (Size B)) / 2)
    in length (Districts C') = 1 \<and> length bs = 2
       \<and> Dist (Location (bs ! 0)) (Location (bs ! 1)) = 0
       \<and> Dist (Location (bs ! 0)) (Location (bs ! 1)) < half (bs ! 0) + half (bs ! 1)
       \<and> \<not> IsValidBuildingLocation
              (C'\<lparr>Districts := [(Districts C' ! 0)\<lparr>Buildings := [bs ! 0]\<rparr>]\<rparr>)
              (Location (bs ! 1)) (half (bs ! 1)))"
proof -
  define C0 where
    "C0 = C\<lparr>NumberOfDistricts := 1, BuildingsPerDistrict := 2, BuildingDensity := 1\<rparr>"
  define C' where "C' = GenerateCity E C0"
  define bs where "bs = Buildings (Districts C' ! 0)"
  have l: "length (Districts C') = 1" by (simp add: C'_def C0_def GenerateCity_lengths)
  from GenerateCity_district [of 0 C0 E] obtain p where
    p: "\<forall>B\<in>set bs. placed_at p B" "length bs = 2"
    by (auto simp add: C0_def bs_def C'_def)
  then have "bs ! 0 \<in> set bs" "bs ! 1 \<in> set bs" by simp_all
  with p(1) have a: "placed_at p (bs ! 0)" "placed_at p (bs ! 1)" by blast+
  then have d: "Dist (Location (bs ! 1)) (Location (bs ! 0)) = 0"
    "Dist (Location (bs ! 0)) (Location (bs ! 1)) = 0"
    by (simp_all add: placed_at_def Dist_def)
  from a have pos: "0 < max (vX (Size (bs ! 0))) (vY (Size (bs ! 0)))"
    "0 < max (vX (Size (bs ! 1))) (vY (Size (bs ! 1)))"
    by (simp_all add: placed_at_def less_max_iff_disj)
  have "\<not> IsValidBuildingLocation
            (C'\<lparr>Districts := [(Districts C' ! 0)\<lparr>Buildings := [bs ! 0]\<rparr>]\<rparr>)
            (Location (bs ! 1)) (max (vX (Size (bs ! 1))) (vY (Size (bs ! 1))) / 2)"
    using a d pos by (simp add: IsValidBuildingLocation_def placed_at_def add_pos_pos)
  with l p(2) d pos show ?thesis
    unfolding Let_def C0_def [symmetric] C'_def [symmetric] bs_def [symmetric]
    by (simp add: add_pos_pos)
qed


section \<open>Terrain generator: the order of the grid\<close>

lemma FMath_FRand_snd: "snd (FMath_FRand g) = advance g"
  by (simp add: FMath_FRand_def FMath_Rand_def)

lemma drop_draws_simps:
  "drop_draws 0 g = g"
  "drop_draws k (advance g) = drop_draws (Suc k) g"
  "drop_draws m (drop_draws n g) = drop_draws (n + m) g"
  by (simp_all add: drop_draws_def advance_def add.assoc)

lemma column_cells_Suc:
  "column_cells E T X Y (Suc n) g
     = Terrain_cell E T X Y (fst (FMath_FRand g)) # column_cells E T X (Y + 1) n (advance g)"
proof -
  have "[0 ..< Suc n] = 0 # map Suc [0 ..< n]"
    by (simp add: upt_conv_Cons map_Suc_upt del: upt_Suc)
  then show ?thesis
    by (simp add: column_cells_def drop_draws_simps comp_def add.assoc del: upt_Suc)
qed

lemma GenerateTerrain_column_eq:
  "GenerateTerrain_column E T X Y grid g
     = (grid @ column_cells E T X Y (nat (TerrainHeight T - Y)) g,
        drop_draws (nat (TerrainHeight T - Y)) g)"
proof (induction "nat (TerrainHeight T - Y)" arbitrary: Y grid g)
  case 0
  then have "\<not> Y < TerrainHeight T" by simp
  then show ?case
    by (subst GenerateTerrain_column.simps) (simp add: column_cells_def drop_draws_simps)
next
  case (Suc n)
  then have lt: "Y < TerrainHeight T" and n: "n = nat (TerrainHeight T - (Y + 1))" by simp_all
  obtain m g' where a: "FMath_FRand g = (m, g')" by fastforce
  then have g': "g' = advance g" using FMath_FRand_snd [of g] by simp
  have "GenerateTerrain_column E T X Y grid g
          = GenerateTerrain_column E T X (Y + 1) (grid @ [Terrain_cell E T X Y m]) g'"
    using lt a by (subst GenerateTerrain_column.simps) simp
  also have "\<dots> = ((grid @ [Terrain_cell E T X Y m]) @ column_cells E T X (Y + 1) n g',
                    drop_draws n g')"
    using Suc(1) [OF n] n by simp
  also have "\<dots> = (grid @ column_cells E T X Y (Suc n) g, drop_draws (Suc n) g)"
    using a by (simp add: column_cells_Suc g' drop_draws_simps)
  finally show ?case using Suc(2) by simp
qed

lemma fill_cells_Suc:
  "fill_cells E T X (Suc w) g
     = column_cells E T X 0 (nat (TerrainHeight T)) g
       @ fill_cells E T (X + 1) w (drop_draws (nat (TerrainHeight T)) g)"
proof -
  have "[0 ..< Suc w] = 0 # map Suc [0 ..< w]"
    by (simp add: upt_conv_Cons map_Suc_upt del: upt_Suc)
  then show ?thesis
    by (simp add: fill_cells_def drop_draws_simps comp_def add_ac del: upt_Suc)
qed

lemma GenerateTerrain_fill_eq:
  "GenerateTerrain_fill E T X grid g
     = (grid @ fill_cells E T X (nat (TerrainWidth T - X)) g,
        drop_draws (nat (TerrainWidth T - X) * nat (TerrainHeight T)) g)"
proof (induction "nat (TerrainWidth T - X)" arbitrary: X grid g)
  case 0
  then have "\<not> X < TerrainWidth T" by simp
  then show ?case
    by (subst GenerateTerrain_fill.simps) (simp add: fill_cells_def drop_draws_simps)
next
  case (Suc w)
  then have lt: "X < TerrainWidth T" and w: "w = nat (TerrainWidth T - (X + 1))" by simp_all
  let ?h = "nat (TerrainHeight T)"
  have "GenerateTerrain_fill E T X grid g
          = GenerateTerrain_fill E T (X + 1) (grid @ column_cells E T X 0 ?h g) (drop_draws ?h g)"
    using lt by (subst GenerateTerrain_fill.simps) (simp add: GenerateTerrain_column_eq)
  also have "\<dots> = ((grid @ column_cells E T X 0 ?h g)
                      @ fill_cells E T (X + 1) w (drop_draws ?h g),
                    drop_draws (w * ?h) (drop_draws ?h g))"
    using Suc(1) [OF w] w by simp
  also have "\<dots> = (grid @ fill_cells E T X (Suc w) g, drop_draws (Suc w * ?h) g)"
    by (simp add: fill_cells_Suc drop_draws_simps)
  finally show ?case using Suc(2) by simp
qed

lemma concat_nth_equal_length:
  "(\<And>i. i < w \<Longrightarrow> length (f i) = h) \<Longrightarrow> x < w \<Longrightarrow> y < h \<Longrightarrow>
   length (concat (map f [0 ..< w])) = w * h \<and> concat (map f [0 ..< w]) ! (x * h + y) = f x ! y"
proof (induction w)
  case 0
  then show ?case by simp
next
  case (Suc w)
  have len: "length (concat (map f [0 ..< w])) = w * h"
    using Suc(2) by (induction w) simp_all
  show ?case
  proof (cases "x < w")
    case True
    then have "x * h + y < w * h"
      using Suc(4) by (metis Suc_leI add_less_cancel_left mult_Suc mult_le_mono1 order_less_le_trans add.commute)
    with Suc(1) [OF Suc(2) True Suc(4)] len Suc(2) show ?thesis
      by (simp add: nth_append)
  next
    case False
    with Suc(3) have "x = w" by simp
    with len Suc(2) show ?thesis by (simp add: nth_append)
  qed
qed

lemma GenerateTerrain_grid:
  "TerrainGrid (fst (GenerateTerrain E T g)) = fill_cells E T 0 (nat (TerrainWidth T)) g"
  by (simp add: GenerateTerrain_def GenerateMoistureMap_def GenerateTemperatureMap_def
      GenerateTerrain_fill_eq Let_def)

lemma GenerateTerrain_layout:
  assumes "x < nat (TerrainWidth T)" and "y < nat (TerrainHeight T)"
  shows "length (TerrainGrid (fst (GenerateTerrain E T g)))
           = nat (TerrainWidth T) * nat (TerrainHeight T)"
    and "TerrainGrid (fst (GenerateTerrain E T g)) ! (x * nat (TerrainHeight T) + y)
           = Terrain_cell E T (int x) (int y)
               (fst (FMath_FRand (drop_draws (x * nat (TerrainHeight T) + y) g)))"
proof -
  let ?h = "nat (TerrainHeight T)"
  let ?f = "\<lambda>i. column_cells E T (0 + int i) 0 ?h (drop_draws (i * ?h) g)"
  have l: "\<And>i. i < nat (TerrainWidth T) \<Longrightarrow> length (?f i) = ?h"
    by (simp add: column_cells_def)
  from concat_nth_equal_length [of "nat (TerrainWidth T)" ?f ?h x y, OF l assms] assms(2)
  show "length (TerrainGrid (fst (GenerateTerrain E T g))) = nat (TerrainWidth T) * ?h"
    and "TerrainGrid (fst (GenerateTerrain E T g)) ! (x * ?h + y)
           = Terrain_cell E T (int x) (int y) (fst (FMath_FRand (drop_draws (x * ?h + y) g)))"
    by (simp_all add: GenerateTerrain_grid fill_cells_def column_cells_def drop_draws_simps)
qed


section \<open>Terrain generator: one run evaluated\<close>

lemmas terrain_eval =
  GenerateTerrain_def GenerateMoistureMap_def GenerateTemperatureMap_def
  GenerateTerrain_fill.simps GenerateTerrain_column.simps Terrain_cell_def Let_def
  small_terrain_def AProceduralTerrainGenerator_default_def FTerrainCell_default_def
  GetPerlinNoise_def PerlinNoise_loop.simps seed_echo_engine_def FRand_def advance_def
  TruncToInt_def FMath_FRand_def FMath_Rand_def RAND_MAX_def rising_def Clamp_def
  DetermineBiome_def

lemma small_terrain_run:
  "map Height (TerrainGrid (fst (GenerateTerrain seed_echo_engine small_terrain rising)))
     = [12345 / 8388608, 13345 / 8388608, 12346 / 8388608, 13346 / 8388608]"
  "map Moisture (TerrainGrid (fst (GenerateTerrain seed_echo_engine small_terrain rising)))
     = [0, 1 / 32767, 2 / 32767, 3 / 32767]"
  by (simp_all add: terrain_eval)

lemma small_terrain_noise:
  "GetPerlinNoise seed_echo_engine small_terrain 0 1 12345 = 13345 / 8388608"
  "GetPerlinNoise seed_echo_engine small_terrain 1 0 12345 = 12346 / 8388608"
  by (simp_all add: terrain_eval)

text \<open>
  Claim C3. On the default terrain cut to two by two cells the grid has four cells, but the
  cell at index 1 is the one generated for \<open>(X, Y) = (0, 1)\<close>: the fill loops run over \<open>X\<close>
  outside and \<open>Y\<close> inside, so the cell of \<open>(X, Y)\<close> lands at \<open>X * height + Y\<close>
  (\<open>GenerateTerrain_layout\<close>). Row-major order, which \<open>GenerateVegetation\<close> reads, puts
  \<open>(1, 0)\<close> at index 1, whose noise is another value.
\<close>

theorem GenerateTerrain_not_row_major:
  "(let grid = TerrainGrid (fst (GenerateTerrain seed_echo_engine small_terrain rising))
    in length grid = 4
     \<and> Vegetation_coordinate small_terrain 1 = (1, 0)
     \<and> Height (grid ! 1) = GetPerlinNoise seed_echo_engine small_terrain 0 1
                              (AProceduralTerrainGenerator.RandomSeed small_terrain)
     \<and> Height (grid ! 1) \<noteq> GetPerlinNoise seed_echo_engine small_terrain 1 0
                              (AProceduralTerrainGenerator.RandomSeed small_terrain))"
proof -
  define grid where "grid = TerrainGrid (fst (GenerateTerrain seed_echo_engine small_terrain rising))"
  have h: "map Height grid = [12345 / 8388608, 13345 / 8388608, 12346 / 8388608, 13346 / 8388608]"
    unfolding grid_def by (rule small_terrain_run(1))
  from arg_cong [OF h, of length] have l: "length grid = 4" by simp
  from arg_cong [OF h, of "\<lambda>xs. xs ! 1"] l have h1: "Height (grid ! 1) = 13345 / 8388608" by simp
  have s: "AProceduralTerrainGenerator.RandomSeed small_terrain = 12345"
    by (simp add: small_terrain_def AProceduralTerrainGenerator_default_def)
  have v: "Vegetation_coordinate small_terrain 1 = (1, 0)"
    by (simp add: Vegetation_coordinate_def cmod_def cdiv_def small_terrain_def)
  show ?thesis unfolding Let_def grid_def [symmetric] using l h1 v
    by (simp add: s small_terrain_noise)
qed

lemma Terrain_cell_fields:
  "Height (Terrain_cell E T X Y m)
     = GetPerlinNoise E T (real_of_int X) (real_of_int Y) (AProceduralTerrainGenerator.RandomSeed T)"
  "Moisture (Terrain_cell E T X Y m) = m"
  by (simp_all add: Terrain_cell_def Let_def FTerrainCell_default_def)

lemma first_column_cells:
  assumes "TerrainWidth T = 2" and "TerrainHeight T = 2"
  shows "Height (TerrainGrid (fst (GenerateTerrain E T g)) ! 0)
           = GetPerlinNoise E T 0 0 (AProceduralTerrainGenerator.RandomSeed T)"
    and "Height (TerrainGrid (fst (GenerateTerrain E T g)) ! Suc 0)
           = GetPerlinNoise E T 0 1 (AProceduralTerrainGenerator.RandomSeed T)"
    and "Moisture (TerrainGrid (fst (GenerateTerrain E T g)) ! 0) = fst (FMath_FRand g)"
    and "Moisture (TerrainGrid (fst (GenerateTerrain E T g)) ! Suc 0)
           = fst (FMath_FRand (advance g))"
proof -
  have w: "0 < nat (TerrainWidth T)" and h: "0 < nat (TerrainHeight T)" "1 < nat (TerrainHeight T)"
    using assms by simp_all
  have a: "drop_draws (Suc 0) g = advance g" by (simp add: drop_draws_def advance_def)
  from GenerateTerrain_layout(2) [OF w h(1), of E g]
  have c0: "TerrainGrid (fst (GenerateTerrain E T g)) ! 0
              = Terrain_cell E T 0 0 (fst (FMath_FRand g))"
    by (simp add: drop_draws_simps(1))
  from GenerateTerrain_layout(2) [OF w h(2), of E g]
  have c1: "TerrainGrid (fst (GenerateTerrain E T g)) ! Suc 0
              = Terrain_cell E T 0 1 (fst (FMath_FRand (advance g)))"
    by (simp add: a)
  show "Height (TerrainGrid (fst (GenerateTerrain E T g)) ! 0)
           = GetPerlinNoise E T 0 0 (AProceduralTerrainGenerator.RandomSeed T)"
    and "Height (TerrainGrid (fst (GenerateTerrain E T g)) ! Suc 0)
           = GetPerlinNoise E T 0 1 (AProceduralTerrainGenerator.RandomSeed T)"
    and "Moisture (TerrainGrid (fst (GenerateTerrain E T g)) ! 0) = fst (FMath_FRand g)"
    and "Moisture (TerrainGrid (fst (GenerateTerrain E T g)) ! Suc 0)
           = fst (FMath_FRand (advance g))"
    by (simp_all add: c0 c1 Terrain_cell_fields)
qed

text \<open>
  Claim C4. Two runs of \<open>GenerateTerrain\<close> on a grid of two by two cells, for any engine, seed
  and other options, one while the process-wide generator counts up and one while it counts
  down. The cells at index 0 and 1 have the same heights in both runs, for a height comes from
  the seed and the coordinate alone; but the moisture of a cell is the process-wide draw made
  for it, not the value \<open>GenerateMoistureMap\<close> computes from the height: cell 0 has moisture
  \<open>0\<close> in the first run and \<open>1\<close> in the second, at one and the same height, and in one of the
  two runs the cell that is not the lower one of the two is strictly the moister one.
\<close>

theorem GenerateTerrain_moisture_not_from_height:
  "(let T' = T\<lparr>TerrainWidth := 2, TerrainHeight := 2\<rparr>;
        up = TerrainGrid (fst (GenerateTerrain E T' rising));
        down = TerrainGrid (fst (GenerateTerrain E T' falling))
    in Height (up ! 0) = Height (down ! 0) \<and> Height (up ! 1) = Height (down ! 1)
     \<and> Moisture (up ! 0) = 0 \<and> Moisture (down ! 0) = 1
     \<and> Moisture (up ! 0) < Moisture (up ! 1) \<and> Moisture (down ! 1) < Moisture (down ! 0)
     \<and> (Height (up ! 0) \<le> Height (up ! 1) \<and> Moisture (up ! 0) < Moisture (up ! 1)
        \<or> Height (down ! 1) \<le> Height (down ! 0) \<and> Moisture (down ! 1) < Moisture (down ! 0)))"
proof -
  define T' where "T' = T\<lparr>TerrainWidth := 2, TerrainHeight := 2\<rparr>"
  define up where "up = TerrainGrid (fst (GenerateTerrain E T' rising))"
  define down where "down = TerrainGrid (fst (GenerateTerrain E T' falling))"
  have d: "TerrainWidth T' = 2" "TerrainHeight T' = 2" by (simp_all add: T'_def)
  have h: "Height (up ! 0) = Height (down ! 0)" "Height (up ! 1) = Height (down ! 1)"
    by (simp_all add: up_def down_def first_column_cells(1,2) [OF d])
  have m: "Moisture (up ! 0) = 0" "Moisture (up ! 1) = 1 / 32767"
    "Moisture (down ! 0) = 1" "Moisture (down ! 1) = 32766 / 32767"
    by (simp_all add: up_def down_def first_column_cells(3,4) [OF d] rising_def falling_def
        FMath_FRand_def FMath_Rand_def RAND_MAX_def advance_def)
  have "Height (up ! 0) \<le> Height (up ! 1) \<or> Height (down ! 1) \<le> Height (down ! 0)"
    using h by linarith
  with h m show ?thesis
    unfolding Let_def T'_def [symmetric] up_def [symmetric] down_def [symmetric]
    by simp
qed

lemma small_terrain_second_run:
  "map Moisture (TerrainGrid (fst (GenerateTerrain seed_echo_engine
       (fst (GenerateTerrain seed_echo_engine small_terrain rising))
       (snd (GenerateTerrain seed_echo_engine small_terrain rising)))))
     = [4 / 32767, 5 / 32767, 6 / 32767, 7 / 32767]"
  by (simp add: terrain_eval)


section \<open>Two runs with one seed\<close>

lemmas weapon_eval = GenerateWeapon_def BeginPlay_def InitializeEnchantmentLibrary_def
   AProceduralWeaponGenerator_default_def low_then_high_def
   FMath_Rand_def FMath_FRand_def FMath_RandRange_def RAND_MAX_def advance_def
   FMath_RandHelper_def
   TruncToInt_def DetermineRarity_def Printf_d_def digits_numeral EElementalType_of_int_def
   GenerateWeaponName_def CalculateWeaponStats_def FWeapon_default_def FWeaponStat_default_def
   AddEnchantments_loop.simps AddEnchantment_def CalculateWeaponValue_def Let_def

lemma first_weapon_run:
  "snd (GenerateWeapon (BeginPlay AProceduralWeaponGenerator_default) Sword 1 low_then_high)
     = (\<lambda>k. 32767)"
  "Rarity (fst (GenerateWeapon (BeginPlay AProceduralWeaponGenerator_default) Sword 1 low_then_high))
     = Legendary"
  by (simp_all add: weapon_eval)

lemma second_weapon_run:
  "Rarity (fst (GenerateWeapon (BeginPlay AProceduralWeaponGenerator_default) Sword 1 (\<lambda>k. 32767)))
     = Common"
  by (simp add: weapon_eval)

text \<open>
  Claim C1. Two runs in a row of \<open>GenerateWeapon\<close>, and of \<open>GenerateTerrain\<close>, with the same
  seed and the same options: the second run continues the process-wide generator where the
  first left it, and returns another weapon (legendary, then common) and another grid (other
  moistures). The seed does not enter these draws.
\<close>

theorem generation_runs_differ:
  "(let G = BeginPlay AProceduralWeaponGenerator_default;
        run1 = GenerateWeapon G Sword 1 low_then_high;
        run2 = GenerateWeapon G Sword 1 (snd run1)
    in Rarity (fst run1) = Legendary \<and> Rarity (fst run2) = Common \<and> fst run1 \<noteq> fst run2)
   \<and> (let run1 = GenerateTerrain seed_echo_engine small_terrain rising;
            run2 = GenerateTerrain seed_echo_engine (fst run1) (snd run1)
        in map Moisture (TerrainGrid (fst run1)) = [0, 1 / 32767, 2 / 32767, 3 / 32767]
         \<and> map Moisture (TerrainGrid (fst run2)) = [4 / 32767, 5 / 32767, 6 / 32767, 7 / 32767]
         \<and> TerrainGrid (fst run1) \<noteq> TerrainGrid (fst run2))"
proof -
  have w: "Rarity W1 = Legendary \<Longrightarrow> Rarity W2 = Common \<Longrightarrow> W1 \<noteq> W2" for W1 W2 :: FWeapon
    by auto
  have t: "map Moisture g1 = [0, 1 / 32767, 2 / 32767, 3 / 32767] \<Longrightarrow>
           map Moisture g2 = [4 / 32767, 5 / 32767, 6 / 32767, 7 / 32767] \<Longrightarrow> g1 \<noteq> g2"
    for g1 g2 :: "FTerrainCell list"
    by auto
  show ?thesis
    unfolding Let_def
    using w [OF first_weapon_run(2) second_weapon_run]
          t [OF small_terrain_run(2) small_terrain_second_run]
    by (simp add: first_weapon_run second_weapon_run small_terrain_run(2) small_terrain_second_run)
qed

end
